theory Spec2Isabelle
  imports Main "HOL-Library.AList"
begin

section \<open>docker-list-tags: the registry client and its command-line driver\<close>

text \<open>
  A shallow embedding of \<^verbatim>\<open>docker-list-tags.py\<close>. The class \<^verbatim>\<open>Registry\<close> and the
  \<^verbatim>\<open>__main__\<close> block are translated function by function. Exceptions are values of
  the type \<open>error\<close>; the attributes of the \<^verbatim>\<open>Registry\<close> object, the requests handed to
  \<^verbatim>\<open>urlopen\<close> and the lines given to \<^verbatim>\<open>print\<close> are fields of an explicit state.
  A \<open>char\<close> stands for one code point of a Python \<^verbatim>\<open>str\<close>; header values are decoded
  as ISO-8859-1 by \<^verbatim>\<open>http.client\<close>, so there every code point is one \<open>char\<close>.
\<close>

subsection \<open>Values of the Python libraries\<close>

text \<open>What \<^verbatim>\<open>json.load\<close> returns: \<^verbatim>\<open>None\<close>, a bool, a number, a str, a list or a dict
  (an association list in insertion order, its keys distinct). The program never computes
  with a number; only its truth value can matter, so numbers are kept as integers.\<close>

datatype json =
    JNull
  | JBool bool
  | JNum int
  | JStr string
  | JArr "json list"
  | JObj "(string \<times> json) list"

text \<open>A \<^verbatim>\<open>urllib.request.Request\<close>: full URL, method and the headers dict.\<close>

record request =
  req_url :: string
  req_method :: string
  req_headers :: "(string \<times> string) list"

text \<open>An \<^verbatim>\<open>http.client.HTTPResponse\<close>: status code, reason phrase, the header lookup
  \<^verbatim>\<open>getheader\<close> (\<open>None\<close> for an absent header), the bytes that \<^verbatim>\<open>read()\<close> returns, and
  the bytes that \<^verbatim>\<open>read()\<close> of the socket file \<^verbatim>\<open>response.fp\<close> under it returns (the body as
  it is on the wire). The same record stands for the \<^verbatim>\<open>fp\<close> of an \<^verbatim>\<open>HTTPError\<close>.\<close>

record response =
  code :: nat
  msg :: string
  getheader :: "string \<Rightarrow> string option"
  body :: string
  raw_body :: string

text \<open>The exceptions that the program can raise. \<open>HTTPError c m fp\<close> carries the status
  code, the message and the response object \<^verbatim>\<open>fp\<close>; \<open>KeyError k\<close> carries the missing
  key (a str, or \<^verbatim>\<open>None\<close>); \<open>ValueError\<close> is raised by \<^verbatim>\<open>urllib.request.Request\<close> for a URL
  that it does not accept, and stands for the decoding errors of \<^verbatim>\<open>json\<close> as well
  (\<^verbatim>\<open>JSONDecodeError\<close>, \<^verbatim>\<open>UnicodeDecodeError\<close>); \<open>OtherError n\<close> is an exception of the class
  named \<open>n\<close> that \<^verbatim>\<open>urlopen\<close> raises and that is no \<^verbatim>\<open>HTTPError\<close> (\<^verbatim>\<open>URLError\<close> for an
  unknown scheme or a failed connection, \<^verbatim>\<open>InvalidURL\<close> for a blank or a control character
  in the URL, and so on).\<close>

datatype error =
    HTTPError nat string response
  | KeyError "string option"
  | TypeError
  | ValueError
  | OtherError string

text \<open>What the program takes from outside. \<open>request_raises\<close>: whether
  \<^verbatim>\<open>urllib.request.Request(url, ...)\<close> raises \<^verbatim>\<open>ValueError\<close> for a URL (it does for a URL
  without a scheme, \<^verbatim>\<open>unknown url type\<close>, and for a malformed host). \<open>net\<close>: what
  \<^verbatim>\<open>urlopen\<close> obtains for a request, which may depend on the requests made before: the
  final response, or the name of the exception that \<^verbatim>\<open>urlopen\<close> raises without a
  response. The library functions \<^verbatim>\<open>json.loads\<close> (\<open>None\<close> when the text does not
  decode), \<^verbatim>\<open>repr\<close> and \<^verbatim>\<open>urllib.parse.urlencode\<close>.\<close>

record env =
  request_raises :: "string \<Rightarrow> bool"
  net :: "request list \<Rightarrow> request \<Rightarrow> string + response"
  json_loads :: "string \<Rightarrow> json option"
  py_repr :: "json \<Rightarrow> string"
  urlencode :: "(string \<times> string) list \<Rightarrow> string"

text \<open>The state: the attributes \<^verbatim>\<open>self.url\<close> and \<^verbatim>\<open>self.token\<close> of the one
  \<^verbatim>\<open>Registry\<close> object (\<open>JNull\<close> is \<^verbatim>\<open>None\<close>), the requests handed to \<^verbatim>\<open>urlopen\<close> so
  far (whatever became of them), and the lines printed so far.\<close>

record state =
  url :: string
  token :: json
  sent :: "request list"
  printed :: "string list"

subsection \<open>Python built-ins\<close>

text \<open>Truth value of an object, as \<^verbatim>\<open>if self.token:\<close> tests it.\<close>

fun truthy :: "json \<Rightarrow> bool" where
  "truthy JNull = False"
| "truthy (JBool b) = b"
| "truthy (JNum n) = (n \<noteq> 0)"
| "truthy (JStr s) = (s \<noteq> [])"
| "truthy (JArr xs) = (xs \<noteq> [])"
| "truthy (JObj kvs) = (kvs \<noteq> [])"

text \<open>\<^verbatim>\<open>"Bearer " + x\<close>: concatenation with a str raises \<^verbatim>\<open>TypeError\<close> unless \<open>x\<close> is a
  str.\<close>

fun str_add :: "string \<Rightarrow> json \<Rightarrow> error + string" where
  "str_add s (JStr t) = Inr (s @ t)"
| "str_add s _ = Inl TypeError"

text \<open>\<^verbatim>\<open>x[key]\<close> with a str key: a dict is looked up (\<^verbatim>\<open>KeyError\<close> when the key is
  missing); every other JSON value raises \<^verbatim>\<open>TypeError\<close>.\<close>

fun getitem :: "json \<Rightarrow> string \<Rightarrow> error + json" where
  "getitem (JObj kvs) k =
     (case map_of kvs k of None \<Rightarrow> Inl (KeyError (Some k)) | Some v \<Rightarrow> Inr v)"
| "getitem _ k = Inl TypeError"

text \<open>The items of \<^verbatim>\<open>for x in v\<close>: the elements of a list, the keys of a dict, the
  characters of a str; other values are not iterable.\<close>

fun py_iter :: "json \<Rightarrow> error + json list" where
  "py_iter (JArr xs) = Inr xs"
| "py_iter (JObj kvs) = Inr (map (\<lambda>kv. JStr (fst kv)) kvs)"
| "py_iter (JStr s) = Inr (map (\<lambda>c. JStr [c]) s)"
| "py_iter _ = Inl TypeError"

text \<open>\<^verbatim>\<open>str(v)\<close>, as \<^verbatim>\<open>"{}".format(v)\<close> renders it: a str is itself, everything else is
  its \<^verbatim>\<open>repr\<close>.\<close>

definition py_str :: "env \<Rightarrow> json \<Rightarrow> string" where
  "py_str env v = (case v of JStr s \<Rightarrow> s | _ \<Rightarrow> py_repr env v)"

text \<open>\<^verbatim>\<open>sep.join(xs)\<close>: every item must be a str.\<close>

fun str_join :: "string \<Rightarrow> json list \<Rightarrow> error + string" where
  "str_join sep [] = Inr []"
| "str_join sep [JStr s] = Inr s"
| "str_join sep (JStr s # x # xs) =
     (case str_join sep (x # xs) of Inl e \<Rightarrow> Inl e | Inr r \<Rightarrow> Inr (s @ sep @ r))"
| "str_join sep (_ # xs) = Inl TypeError"

text \<open>\<^verbatim>\<open>s.partition(sep)\<close> for a one-character separator: split at its first
  occurrence; without one the result is \<^verbatim>\<open>(s, '', '')\<close>.\<close>

fun str_partition :: "char \<Rightarrow> string \<Rightarrow> string \<times> string \<times> string" where
  "str_partition sep [] = ([], [], [])"
| "str_partition sep (c # cs) =
     (if c = sep then ([], [sep], cs)
      else (case str_partition sep cs of (h, m, t) \<Rightarrow> (c # h, m, t)))"

text \<open>Decimal digits of a number, for \<^verbatim>\<open>'%s' % code\<close>.\<close>

fun str_nat :: "nat \<Rightarrow> string" where
  "str_nat n =
     (if n < 10 then [''0123456789'' ! n]
      else str_nat (n div 10) @ [''0123456789'' ! (n mod 10)])"

declare str_nat.simps [simp del]

text \<open>\<^verbatim>\<open>str(exception)\<close> of an \<^verbatim>\<open>HTTPError\<close>: \<^verbatim>\<open>'HTTP Error %s: %s' % (code, msg)\<close>.\<close>

definition str_HTTPError :: "nat \<Rightarrow> string \<Rightarrow> string" where
  "str_HTTPError c m = ''HTTP Error '' @ str_nat c @ '': '' @ m"

definition print :: "string \<Rightarrow> state \<Rightarrow> state" where
  "print line s = s\<lparr>printed := printed s @ [line]\<rparr>"

subsection \<open>The two regular expressions of \<^verbatim>\<open>api_call\<close>\<close>

text \<open>The classes \<^verbatim>\<open>\s\<close> and \<^verbatim>\<open>\w\<close> of a str pattern, on the code points below 256.\<close>

definition is_space :: "char \<Rightarrow> bool" where
  "is_space c = ((of_char c :: nat) \<in> {9, 10, 11, 12, 13, 28, 29, 30, 31, 32, 133, 160})"

definition is_word :: "char \<Rightarrow> bool" where
  "is_word c =
     (let n = (of_char c :: nat) in
        (48 \<le> n \<and> n \<le> 57) \<or> (65 \<le> n \<and> n \<le> 90) \<or> n = 95 \<or> (97 \<le> n \<and> n \<le> 122)
        \<or> n \<in> {170, 178, 179, 181, 185, 186, 188, 189, 190}
        \<or> (192 \<le> n \<and> n \<le> 214) \<or> (216 \<le> n \<and> n \<le> 246) \<or> 248 \<le> n)"

definition dquote :: char where
  "dquote = CHR 0x22"

text \<open>\<open>strip_prefix p s\<close>: the rest of \<open>s\<close> after the literal \<open>p\<close>, if \<open>s\<close> starts with it.\<close>

fun strip_prefix :: "string \<Rightarrow> string \<Rightarrow> string option" where
  "strip_prefix [] s = Some s"
| "strip_prefix (p # ps) [] = None"
| "strip_prefix (p # ps) (c # cs) = (if p = c then strip_prefix ps cs else None)"

text \<open>\<^verbatim>\<open>re.search(r"Bearer\s+", auth)\<close> followed by \<^verbatim>\<open>auth[match.end():]\<close>: the leftmost
  place where \<^verbatim>\<open>Bearer\<close> and at least one white-space character stand; the result is
  what follows the whole run of white space. \<open>None\<close> when there is no match.\<close>

fun match_bearer :: "string \<Rightarrow> string option" where
  "match_bearer s =
     (case strip_prefix ''Bearer'' s of
        None \<Rightarrow> None
      | Some r \<Rightarrow> (case r of [] \<Rightarrow> None
                   | c # cs \<Rightarrow> if is_space c then Some (dropWhile is_space cs) else None))"

fun search_bearer :: "string \<Rightarrow> string option" where
  "search_bearer [] = None"
| "search_bearer (c # cs) =
     (case match_bearer (c # cs) of Some r \<Rightarrow> Some r | None \<Rightarrow> search_bearer cs)"

text \<open>One match of \<^verbatim>\<open>(\w+)=(?:([^ ",]+)|"([^"]+)")\<close> at the start of \<open>s\<close>: the key, the
  value (\<^verbatim>\<open>group[1] or group[2]\<close>) and the text after the match.\<close>

definition bare :: "char \<Rightarrow> bool" where
  "bare c = (c \<noteq> CHR '' '' \<and> c \<noteq> dquote \<and> c \<noteq> CHR '','')"

definition match_kv :: "string \<Rightarrow> (string \<times> string \<times> string) option" where
  "match_kv s =
     (let k = takeWhile is_word s in
      if k = [] then None
      else (case dropWhile is_word s of
              [] \<Rightarrow> None
            | e # r1 \<Rightarrow>
                if e \<noteq> CHR ''='' then None
                else if takeWhile bare r1 \<noteq> [] then
                  Some (k, takeWhile bare r1, dropWhile bare r1)
                else (case r1 of
                        [] \<Rightarrow> None
                      | q # r2 \<Rightarrow>
                          if q \<noteq> dquote then None
                          else if takeWhile (\<lambda>c. c \<noteq> dquote) r2 = [] then None
                          else (case dropWhile (\<lambda>c. c \<noteq> dquote) r2 of
                                  [] \<Rightarrow> None
                                | _ # r3 \<Rightarrow> Some (k, takeWhile (\<lambda>c. c \<noteq> dquote) r2, r3)))))"

lemma match_kv_shorter:
  assumes "match_kv s = Some (k, v, rest)"
  shows "length rest < length s"
proof -
  from assms obtain r1 where r1: "dropWhile is_word s = CHR ''='' # r1"
    by (auto simp: match_kv_def Let_def split: if_splits list.splits)
  have "length (dropWhile is_word s) \<le> length s"
    by (rule length_dropWhile_le)
  with r1 have a: "length r1 < length s"
    by simp
  from assms r1 have "rest = dropWhile bare r1
      \<or> (\<exists>r2 q. r1 = dquote # r2 \<and> dropWhile (\<lambda>c. c \<noteq> dquote) r2 = q # rest)"
    by (auto simp: match_kv_def Let_def split: if_splits list.splits)
  then have "length rest \<le> length r1"
  proof
    assume "rest = dropWhile bare r1"
    then show ?thesis
      by (simp add: length_dropWhile_le)
  next
    assume "\<exists>r2 q. r1 = dquote # r2 \<and> dropWhile (\<lambda>c. c \<noteq> dquote) r2 = q # rest"
    then obtain r2 q where r2: "r1 = dquote # r2"
      and q: "dropWhile (\<lambda>c. c \<noteq> dquote) r2 = q # rest"
      by blast
    have "length (dropWhile (\<lambda>c. c \<noteq> dquote) r2) \<le> length r2"
      by (rule length_dropWhile_le)
    with r2 q show ?thesis
      by simp
  qed
  with a show ?thesis
    by simp
qed

text \<open>\<^verbatim>\<open>re.findall\<close> with that pattern: the matches from left to right, none
  overlapping; where no match starts, the scan moves on by one character.\<close>

function findall_kv :: "string \<Rightarrow> (string \<times> string) list" where
  "findall_kv [] = []"
| "findall_kv (c # cs) =
     (case match_kv (c # cs) of
        None \<Rightarrow> findall_kv cs
      | Some (k, v, rest) \<Rightarrow> (k, v) # findall_kv rest)"
  by pat_completeness auto
termination
  by (relation "measure length") (auto dest: match_kv_shorter)

text \<open>The dict comprehension \<^verbatim>\<open>{group[0]: group[1] or group[2] for group in match}\<close>:
  a later pair with the same key replaces the value of the earlier one.\<close>

definition dict_of :: "(string \<times> string) list \<Rightarrow> (string \<times> string) list" where
  "dict_of pairs = foldl (\<lambda>d kv. AList.update (fst kv) (snd kv) d) [] pairs"

subsection \<open>The class \<^verbatim>\<open>Registry\<close>\<close>

text \<open>\<^verbatim>\<open>urllib.request.Request(url, method=method, headers=headers)\<close>: the constructor
  raises \<^verbatim>\<open>ValueError\<close> for a URL that it does not accept.\<close>

definition Request ::
  "env \<Rightarrow> string \<Rightarrow> string \<Rightarrow> (string \<times> string) list \<Rightarrow> error + request" where
  "Request env u method headers =
     (if request_raises env u then Inl ValueError
      else Inr \<lparr>req_url = u, req_method = method, req_headers = headers\<rparr>)"

text \<open>\<^verbatim>\<open>urllib.request.urlopen\<close>: the request is recorded; \<^verbatim>\<open>urlopen\<close> raises an exception
  of its own, or it has a response, and then a status outside 200..299 is raised as an
  \<^verbatim>\<open>HTTPError\<close> whose \<^verbatim>\<open>fp\<close> is the response. The response is the final one, after the
  redirections that \<^verbatim>\<open>urllib\<close> follows by itself. A call that never returns is outside
  this model.\<close>

definition urlopen :: "env \<Rightarrow> request \<Rightarrow> state \<Rightarrow> (error + response) \<times> state" where
  "urlopen env rq s =
     (let s' = s\<lparr>sent := sent s @ [rq]\<rparr>
      in case net env (sent s) rq of
           Inl n \<Rightarrow> (Inl (OtherError n), s')
         | Inr r \<Rightarrow>
             if 200 \<le> code r \<and> code r < 300 then (Inr r, s')
             else (Inl (HTTPError (code r) (msg r) r), s'))"

text \<open>\<^verbatim>\<open>json.load(response)\<close>.\<close>

definition json_load :: "env \<Rightarrow> response \<Rightarrow> error + json" where
  "json_load env r = (case json_loads env (body r) of None \<Rightarrow> Inl ValueError | Some v \<Rightarrow> Inr v)"

text \<open>The URL of the request that \<^verbatim>\<open>get_token\<close> builds (lines 34-35).\<close>

definition token_url :: "env \<Rightarrow> string \<Rightarrow> string \<Rightarrow> string \<Rightarrow> string" where
  "token_url env realm service scope =
     realm @ ''?'' @ urlencode env [(''service'', service), (''scope'', scope)]"

text \<open>The \<^verbatim>\<open>HTTPError\<close> of lines 38-44 has \<^verbatim>\<open>response.fp\<close> as its \<^verbatim>\<open>fp\<close>: the socket file,
  whose \<^verbatim>\<open>read()\<close> gives the bytes on the wire. (It has no \<^verbatim>\<open>getheader\<close>; the program
  never asks it for one, since \<^verbatim>\<open>api_call\<close> catches the exception of its own first
  \<^verbatim>\<open>urlopen\<close> only.)\<close>

definition get_token ::
  "env \<Rightarrow> string \<Rightarrow> string \<Rightarrow> string \<Rightarrow> state \<Rightarrow> (error + unit) \<times> state" where
  "get_token env realm service scope s =
     (case Request env (token_url env realm service scope) ''GET'' [] of
        Inl e \<Rightarrow> (Inl e, s)
      | Inr request \<Rightarrow>
          (case urlopen env request s of
             (Inl e, s1) \<Rightarrow> (Inl e, s1)
           | (Inr response, s1) \<Rightarrow>
               if code response \<noteq> 200 then
                 (Inl (HTTPError (code response) ''Could not get auth token''
                         (response\<lparr>body := raw_body response\<rparr>)), s1)
               else (case json_load env response of
                       Inl e \<Rightarrow> (Inl e, s1)
                     | Inr data \<Rightarrow>
                         (case getitem data ''token'' of
                            Inl e \<Rightarrow> (Inl e, s1)
                          | Inr t \<Rightarrow> (Inr (), s1\<lparr>token := t\<rparr>)))))"

text \<open>Lines 48-50 of \<^verbatim>\<open>api_call\<close>: the headers of the first request.\<close>

definition authorize ::
  "json \<Rightarrow> (string \<times> string) list \<Rightarrow> error + (string \<times> string) list" where
  "authorize tok headers =
     (if truthy tok then
        (case str_add ''Bearer '' tok of
           Inl e \<Rightarrow> Inl e
         | Inr v \<Rightarrow> Inr (AList.update ''Authorization'' v headers))
      else Inr headers)"

text \<open>Lines 58-76: the \<^verbatim>\<open>except HTTPError as exception\<close> clause, for the exception
  \<open>HTTPError c m fp\<close>. \<^verbatim>\<open>re.search\<close> on \<^verbatim>\<open>None\<close> (the header is absent) raises
  \<^verbatim>\<open>TypeError\<close>; the three subscripts of line 69 are evaluated from left to right,
  before \<^verbatim>\<open>get_token\<close> is called.\<close>

definition except_clause ::
  "env \<Rightarrow> string \<Rightarrow> string \<Rightarrow> (string \<times> string) list \<Rightarrow> nat \<Rightarrow> string \<Rightarrow> response \<Rightarrow> state
    \<Rightarrow> (error + response) \<times> state" where
  "except_clause env path method headers c m fp s =
     (if c \<noteq> 401 then (Inl (HTTPError c m fp), s)
      else (case getheader fp ''WWW-Authenticate'' of
              None \<Rightarrow> (Inl TypeError, s)
            | Some auth \<Rightarrow>
                (case search_bearer auth of
                   None \<Rightarrow> (Inl (HTTPError c m fp), s)
                 | Some auth' \<Rightarrow>
                     (let match = dict_of (findall_kv auth') in
                      case map_of match ''realm'' of
                        None \<Rightarrow> (Inl (KeyError (Some ''realm'')), s)
                      | Some realm \<Rightarrow>
                      (case map_of match ''service'' of
                         None \<Rightarrow> (Inl (KeyError (Some ''service'')), s)
                       | Some service \<Rightarrow>
                       (case map_of match ''scope'' of
                          None \<Rightarrow> (Inl (KeyError (Some ''scope'')), s)
                        | Some scope \<Rightarrow>
                        (case get_token env realm service scope s of
                           (Inl e, s1) \<Rightarrow> (Inl e, s1)
                         | (Inr _, s1) \<Rightarrow>
                             (case str_add ''Bearer '' (token s1) of
                                Inl e \<Rightarrow> (Inl e, s1)
                              | Inr v \<Rightarrow>
                                  (case Request env (url s1 @ path) method
                                          (AList.update ''Authorization'' v headers) of
                                     Inl e \<Rightarrow> (Inl e, s1)
                                   | Inr request \<Rightarrow> urlopen env request s1)))))))))"

definition api_call ::
  "env \<Rightarrow> string \<Rightarrow> string \<Rightarrow> (string \<times> string) list \<Rightarrow> state \<Rightarrow> (error + response) \<times> state" where
  "api_call env path method headers s =
     (case authorize (token s) headers of
        Inl e \<Rightarrow> (Inl e, s)
      | Inr headers' \<Rightarrow>
          (case Request env (url s @ path) method headers' of
             Inl e \<Rightarrow> (Inl e, s)
           | Inr request \<Rightarrow>
               (case urlopen env request s of
                  (Inr response, s1) \<Rightarrow> (Inr response, s1)
                | (Inl (HTTPError c m fp), s1) \<Rightarrow>
                    except_clause env path method headers' c m fp s1
                | (Inl e, s1) \<Rightarrow> (Inl e, s1))))"

definition list_tags :: "env \<Rightarrow> string \<Rightarrow> state \<Rightarrow> (error + json) \<times> state" where
  "list_tags env name s =
     (case api_call env (''/v2/'' @ name @ ''/tags/list'') ''GET'' [] s of
        (Inl e, s1) \<Rightarrow> (Inl e, s1)
      | (Inr response, s1) \<Rightarrow>
          (case json_load env response of
             Inl e \<Rightarrow> (Inl e, s1)
           | Inr data \<Rightarrow>
               (case getitem data ''tags'' of
                  Inl e \<Rightarrow> (Inl e, s1)
                | Inr tags \<Rightarrow> (Inr tags, s1))))"

text \<open>The reference \<open>ref\<close> is a str in the driver and an item of the tag list in
  \<^verbatim>\<open>list_images\<close>; \<^verbatim>\<open>format\<close> renders it with \<^verbatim>\<open>str\<close>. The result is the header
  value, \<^verbatim>\<open>None\<close> when the response has no such header.\<close>

definition get_manifests_list_digest ::
  "env \<Rightarrow> string \<Rightarrow> json \<Rightarrow> state \<Rightarrow> (error + string option) \<times> state" where
  "get_manifests_list_digest env name ref s =
     (case api_call env (''/v2/'' @ name @ ''/manifests/'' @ py_str env ref) ''HEAD''
             [(''Accept'', ''application/vnd.docker.distribution.manifest.list.v2+json'')] s of
        (Inl e, s1) \<Rightarrow> (Inl e, s1)
      | (Inr response, s1) \<Rightarrow> (Inr (getheader response ''Docker-Content-Digest''), s1))"

text \<open>\<^verbatim>\<open>images.setdefault(digest, []).append(tag)\<close> on a dict kept in insertion order:
  a new digest goes to the end with the one tag, a known digest keeps its place and
  gets the tag at the end of its list.\<close>

definition setdefault_append ::
  "('k \<times> 'v list) list \<Rightarrow> 'k \<Rightarrow> 'v \<Rightarrow> ('k \<times> 'v list) list" where
  "setdefault_append images digest tag =
     (case map_of images digest of
        None \<Rightarrow> images @ [(digest, [tag])]
      | Some tags \<Rightarrow> AList.update digest (tags @ [tag]) images)"

text \<open>The loop of \<^verbatim>\<open>list_images\<close> (lines 97-99) over the items still to visit.\<close>

fun list_images_loop ::
  "env \<Rightarrow> string \<Rightarrow> json list \<Rightarrow> (string option \<times> json list) list \<Rightarrow> state
    \<Rightarrow> (error + (string option \<times> json list) list) \<times> state" where
  "list_images_loop env name [] images s = (Inr images, s)"
| "list_images_loop env name (tag # tags) images s =
     (case get_manifests_list_digest env name tag s of
        (Inl e, s1) \<Rightarrow> (Inl e, s1)
      | (Inr digest, s1) \<Rightarrow>
          list_images_loop env name tags (setdefault_append images digest tag) s1)"

definition list_images ::
  "env \<Rightarrow> string \<Rightarrow> state \<Rightarrow> (error + (string option \<times> json list) list) \<times> state" where
  "list_images env name s =
     (case list_tags env name s of
        (Inl e, s1) \<Rightarrow> (Inl e, s1)
      | (Inr tags, s1) \<Rightarrow>
          (case py_iter tags of
             Inl e \<Rightarrow> (Inl e, s1)
           | Inr items \<Rightarrow> list_images_loop env name items [] s1))"

subsection \<open>The command-line driver\<close>

text \<open>The parsed command line: \<^verbatim>\<open>args.name\<close>, \<^verbatim>\<open>args.all\<close>, \<^verbatim>\<open>args.token\<close> (\<open>None\<close>
  without \<^verbatim>\<open>--token\<close>) and \<^verbatim>\<open>args.url\<close>.\<close>

record args =
  arg_name :: string
  arg_all :: bool
  arg_token :: "string option"
  arg_url :: string

text \<open>Lines 125-129: the name and the tag or digest of the reference.\<close>

definition split_reference :: "string \<Rightarrow> string \<times> string" where
  "split_reference ref =
     (case str_partition CHR ''@'' ref of
        (name, _, tag) \<Rightarrow>
          (case (if tag = [] then
                   (case str_partition CHR '':'' ref of (name', _, tag') \<Rightarrow> (name', tag'))
                 else (name, tag)) of
             (name, tag) \<Rightarrow> (name, if tag = [] then ''latest'' else tag)))"

text \<open>Lines 130-133: \<^verbatim>\<open>--all\<close> sets the tag to \<^verbatim>\<open>None\<close>, and a name without a slash
  gets the prefix.\<close>

definition parse_reference :: "string \<Rightarrow> bool \<Rightarrow> string \<times> string option" where
  "parse_reference ref all_flag =
     (case split_reference ref of
        (name, tag) \<Rightarrow>
          (if CHR ''/'' \<notin> set name then ''library/'' @ name else name,
           if all_flag then None else Some tag))"

text \<open>Lines 144-145: one line for each item of the dict. A digest that is \<^verbatim>\<open>None\<close>
  cannot be concatenated with a str.\<close>

fun print_images :: "(string option \<times> json list) list \<Rightarrow> state \<Rightarrow> (error + unit) \<times> state" where
  "print_images [] s = (Inr (), s)"
| "print_images ((digest, tags) # images) s =
     (case digest of
        None \<Rightarrow> (Inl TypeError, s)
      | Some d \<Rightarrow>
          (case str_join '' '' tags of
             Inl e \<Rightarrow> (Inl e, s)
           | Inr line \<Rightarrow> print_images images (print (d @ '': '' @ line) s)))"

text \<open>Lines 136-145, the body of the \<^verbatim>\<open>try\<close> statement. The tag is \<^verbatim>\<open>None\<close> or a
  non-empty str here, so \<^verbatim>\<open>if tag:\<close> tests whether it is not \<^verbatim>\<open>None\<close>.\<close>

definition try_block :: "env \<Rightarrow> string \<Rightarrow> string option \<Rightarrow> state \<Rightarrow> (error + unit) \<times> state" where
  "try_block env name tag s =
     (case tag of
        Some t \<Rightarrow>
          (case get_manifests_list_digest env name (JStr t) s of
             (Inl e, s1) \<Rightarrow> (Inl e, s1)
           | (Inr digest, s1) \<Rightarrow>
               (case list_images env name s1 of
                  (Inl e, s2) \<Rightarrow> (Inl e, s2)
                | (Inr images, s2) \<Rightarrow>
                    (case map_of images digest of
                       None \<Rightarrow> (Inl (KeyError digest), s2)
                     | Some tags \<Rightarrow>
                         (case str_join '' '' tags of
                            Inl e \<Rightarrow> (Inl e, s2)
                          | Inr line \<Rightarrow> (Inr (), print line s2)))))
      | None \<Rightarrow>
          (case list_images env name s of
             (Inl e, s1) \<Rightarrow> (Inl e, s1)
           | (Inr images, s1) \<Rightarrow> print_images images s1))"

text \<open>Lines 151-153: the loop over the entries of \<^verbatim>\<open>data["errors"]\<close>.\<close>

fun print_errors :: "env \<Rightarrow> json list \<Rightarrow> state \<Rightarrow> (error + unit) \<times> state" where
  "print_errors env [] s = (Inr (), s)"
| "print_errors env (err # errs) s =
     (case getitem err ''code'' of
        Inl e \<Rightarrow> (Inl e, s)
      | Inr c \<Rightarrow>
          (case getitem err ''message'' of
             Inl e \<Rightarrow> (Inl e, s)
           | Inr m \<Rightarrow>
               (let s1 = print (py_str env c @ '': '' @ py_str env m) s in
                case getitem err ''detail'' of
                  Inl e \<Rightarrow> (Inl e, s1)
                | Inr d \<Rightarrow> print_errors env errs (print (''details: '' @ py_repr env d) s1))))"

text \<open>How the process ends: the script runs to its end, \<^verbatim>\<open>sys.exit(n)\<close> is called, or
  an exception is caught nowhere. The interpreter ends the process with status 0 in
  the first case and, after a traceback, with status 1 in the last.\<close>

datatype outcome = Finished | SysExit nat | Uncaught error

fun exit_status :: "outcome \<Rightarrow> nat" where
  "exit_status Finished = 0"
| "exit_status (SysExit n) = n"
| "exit_status (Uncaught e) = 1"

text \<open>Lines 147-155, the \<^verbatim>\<open>except HTTPError as exception\<close> clause of the driver.\<close>

definition except_HTTPError :: "env \<Rightarrow> nat \<Rightarrow> string \<Rightarrow> response \<Rightarrow> state \<Rightarrow> outcome \<times> state" where
  "except_HTTPError env c m fp s =
     (let s1 = print (str_HTTPError c m) s;
          data = body fp
      in if data \<noteq> [] then
           (case json_loads env data of
              None \<Rightarrow> (Uncaught ValueError, s1)
            | Some d \<Rightarrow>
                (case getitem d ''errors'' of
                   Inl e \<Rightarrow> (Uncaught e, s1)
                 | Inr v \<Rightarrow>
                     (case py_iter v of
                        Inl e \<Rightarrow> (Uncaught e, s1)
                      | Inr errs \<Rightarrow>
                          (case print_errors env errs s1 of
                             (Inl e, s2) \<Rightarrow> (Uncaught e, s2)
                           | (Inr _, s2) \<Rightarrow> (SysExit 1, s2)))))
         else (SysExit 1, s1))"

text \<open>Line 123: the \<^verbatim>\<open>Registry\<close> object, before any request and any output.\<close>

definition Registry :: "string \<Rightarrow> string option \<Rightarrow> state" where
  "Registry u t =
     \<lparr>url = u, token = (case t of None \<Rightarrow> JNull | Some x \<Rightarrow> JStr x), sent = [], printed = []\<rparr>"

text \<open>Lines 135-155 for a given name and tag: the \<^verbatim>\<open>try\<close> statement with its handler.\<close>

definition driver :: "env \<Rightarrow> string \<Rightarrow> string option \<Rightarrow> state \<Rightarrow> outcome \<times> state" where
  "driver env name tag s =
     (case try_block env name tag s of
        (Inr _, s1) \<Rightarrow> (Finished, s1)
      | (Inl (HTTPError c m fp), s1) \<Rightarrow> except_HTTPError env c m fp s1
      | (Inl e, s1) \<Rightarrow> (Uncaught e, s1))"

text \<open>The \<^verbatim>\<open>__main__\<close> block.\<close>

definition main :: "env \<Rightarrow> args \<Rightarrow> outcome \<times> state" where
  "main env a =
     (case parse_reference (arg_name a) (arg_all a) of
        (name, tag) \<Rightarrow> driver env name tag (Registry (arg_url a) (arg_token a)))"

section \<open>Notions used in the statements\<close>

text \<open>The distinct elements of a list, each at the place of its first occurrence.\<close>

fun first_occurrences :: "'a list \<Rightarrow> 'a list" where
  "first_occurrences [] = []"
| "first_occurrences (x # xs) = x # filter (\<lambda>y. y \<noteq> x) (first_occurrences xs)"

text \<open>The digests that the registry returns for the given tags, asked one after the
  other as \<^verbatim>\<open>list_images\<close> asks them.\<close>

fun resolve_digests ::
  "env \<Rightarrow> string \<Rightarrow> json list \<Rightarrow> state \<Rightarrow> (error + string option list) \<times> state" where
  "resolve_digests env name [] s = (Inr [], s)"
| "resolve_digests env name (tag # tags) s =
     (case get_manifests_list_digest env name tag s of
        (Inl e, s1) \<Rightarrow> (Inl e, s1)
      | (Inr digest, s1) \<Rightarrow>
          (case resolve_digests env name tags s1 of
             (Inl e, s2) \<Rightarrow> (Inl e, s2)
           | (Inr digests, s2) \<Rightarrow> (Inr (digest # digests), s2)))"

text \<open>The dict after \<^verbatim>\<open>setdefault(...).append(...)\<close> for each (digest, tag) pair in
  turn.\<close>

definition group_by_digest ::
  "('k \<times> 'v list) list \<Rightarrow> ('k \<times> 'v) list \<Rightarrow> ('k \<times> 'v list) list" where
  "group_by_digest images pairs =
     foldl (\<lambda>im p. setdefault_append im (fst p) (snd p)) images pairs"

text \<open>The two lines that the driver prints for one entry of the \<^verbatim>\<open>errors\<close> array
  that has the three fields.\<close>

definition error_lines :: "env \<Rightarrow> json \<Rightarrow> string list option" where
  "error_lines env err =
     (case (getitem err ''code'', getitem err ''message'', getitem err ''detail'') of
        (Inr c, Inr m, Inr d) \<Rightarrow>
          Some [py_str env c @ '': '' @ py_str env m, ''details: '' @ py_repr env d]
      | _ \<Rightarrow> None)"

text \<open>The request of \<^verbatim>\<open>get_token\<close>.\<close>

definition token_request :: "env \<Rightarrow> string \<Rightarrow> string \<Rightarrow> string \<Rightarrow> request" where
  "token_request env realm service scope =
     \<lparr>req_url = token_url env realm service scope, req_method = ''GET'', req_headers = []\<rparr>"

text \<open>A request is made for the repository \<open>name\<close> at the registry \<open>base\<close>, or it is
  a request to a token service.\<close>

definition names_repository :: "env \<Rightarrow> string \<Rightarrow> string \<Rightarrow> request \<Rightarrow> bool" where
  "names_repository env base name rq \<longleftrightarrow>
     (\<exists>realm service scope. rq = token_request env realm service scope)
     \<or> (\<exists>rest. req_url rq = base @ ''/v2/'' @ name @ ''/'' @ rest)"

text \<open>From \<open>s\<close> to \<open>s'\<close> the registry URL is kept and only such requests are added.\<close>

definition requests_added :: "env \<Rightarrow> string \<Rightarrow> state \<Rightarrow> state \<Rightarrow> bool" where
  "requests_added env name s s' \<longleftrightarrow>
     url s' = url s
     \<and> (\<exists>new. sent s' = sent s @ new \<and> list_all (names_repository env (url s) name) new)"

section \<open>Sample registries\<close>

text \<open>Concrete environments on which the theorems below are instantiated. The library
  functions are given on the values that occur in the samples.\<close>

definition sample_repr :: "json \<Rightarrow> string" where
  "sample_repr v =
     (case v of
        JNull \<Rightarrow> ''None''
      | JBool b \<Rightarrow> (if b then ''True'' else ''False'')
      | JStr s \<Rightarrow> [CHR 0x27] @ s @ [CHR 0x27]
      | _ \<Rightarrow> ''...'')"

definition sample_urlencode :: "(string \<times> string) list \<Rightarrow> string" where
  "sample_urlencode kvs =
     (if kvs = [(''service'', ''registry.example''), (''scope'', ''repo:foo/bar:pull'')]
      then ''service=registry.example&scope=repo%3Afoo%2Fbar%3Apull''
      else [])"

definition sample_loads :: "string \<Rightarrow> json option" where
  \<open>sample_loads b =
     (if b = ''{"tags":["v1","v2","latest"]}'' then
        Some (JObj [(''tags'', JArr [JStr ''v1'', JStr ''v2'', JStr ''latest''])])
      else if b = ''{"tags":null}'' then
        Some (JObj [(''tags'', JNull)])
      else if b = ''{"token":"abc"}'' then
        Some (JObj [(''token'', JStr ''abc'')])
      else if b = ''{"errors":[{"code":"NAME_UNKNOWN","message":"repository not found","detail":"library/nginx"}]}'' then
        Some (JObj [(''errors'', JArr [JObj [(''code'', JStr ''NAME_UNKNOWN''),
                (''message'', JStr ''repository not found''),
                (''detail'', JStr ''library/nginx'')]])])
      else None)\<close>

text \<open>The scheme check of \<^verbatim>\<open>urllib.request.Request\<close>: the URL is unwrapped
  (\<^verbatim>\<open>urllib.parse.unwrap\<close>), cut at its last \<open>#\<close>, and must then begin with a scheme, that
  is with \<^verbatim>\<open>[^/:]+\<close> and a colon. For a URL without brackets in its host this is the one
  reason for the \<^verbatim>\<open>ValueError\<close> of the constructor.\<close>

definition strip :: "string \<Rightarrow> string" where
  "strip u = rev (dropWhile is_space (rev (dropWhile is_space u)))"

definition unwrap :: "string \<Rightarrow> string" where
  "unwrap u =
     (let u1 = strip u;
          u2 = (if u1 \<noteq> [] \<and> hd u1 = CHR ''<'' \<and> last u1 = CHR ''>''
                then strip (butlast (tl u1)) else u1)
      in if take 4 u2 = ''URL:'' then strip (drop 4 u2) else u2)"

definition splittag :: "string \<Rightarrow> string" where
  "splittag u =
     (if CHR ''#'' \<in> set u then rev (tl (dropWhile (\<lambda>c. c \<noteq> CHR ''#'') (rev u))) else u)"

definition unknown_url_type :: "string \<Rightarrow> bool" where
  "unknown_url_type u =
     (let v = splittag (unwrap u);
          scheme = takeWhile (\<lambda>c. c \<noteq> CHR ''/'' \<and> c \<noteq> CHR '':'') v
      in scheme = []
         \<or> (case dropWhile (\<lambda>c. c \<noteq> CHR ''/'' \<and> c \<noteq> CHR '':'') v of
               [] \<Rightarrow> True
             | c # _ \<Rightarrow> c \<noteq> CHR '':''))"

text \<open>An environment whose network answers every request with a response.\<close>

definition sample_env :: "(request list \<Rightarrow> request \<Rightarrow> response) \<Rightarrow> env" where
  "sample_env n =
     \<lparr>request_raises = unknown_url_type, net = (\<lambda>history rq. Inr (n history rq)),
      json_loads = sample_loads, py_repr = sample_repr, urlencode = sample_urlencode\<rparr>"

definition no_headers :: "string \<Rightarrow> string option" where
  "no_headers h = None"

definition digest_header :: "string \<Rightarrow> string \<Rightarrow> string option" where
  "digest_header d h = (if h = ''Docker-Content-Digest'' then Some d else None)"

definition www_authenticate :: "string \<Rightarrow> string \<Rightarrow> string option" where
  "www_authenticate v h = (if h = ''WWW-Authenticate'' then Some v else None)"

definition not_found :: response where
  \<open>not_found = \<lparr>code = 404, msg = ''Not Found'', getheader = no_headers,
     body = ''{"errors":[{"code":"NAME_UNKNOWN","message":"repository not found","detail":"library/nginx"}]}'',
     raw_body = ''{"errors":[{"code":"NAME_UNKNOWN","message":"repository not found","detail":"library/nginx"}]}''\<rparr>\<close>

definition manifest :: "string \<Rightarrow> response" where
  "manifest d =
     \<lparr>code = 200, msg = ''OK'', getheader = digest_header d, body = [], raw_body = []\<rparr>"

definition unauthorized :: "(string \<Rightarrow> string option) \<Rightarrow> response" where
  "unauthorized h =
     \<lparr>code = 401, msg = ''Unauthorized'', getheader = h, body = [], raw_body = []\<rparr>"

text \<open>A registry that asks for no token. The repository \<^verbatim>\<open>myrepo/app\<close> has three tags,
  two of them on one digest, and one more manifest that no tag points to;
  \<^verbatim>\<open>myrepo/empty\<close> has no tags; everything else is unknown (the answer to a
  \<^verbatim>\<open>HEAD\<close> request has no body).\<close>

definition open_registry :: "request list \<Rightarrow> request \<Rightarrow> response" where
  \<open>open_registry history rq =
     (case map_of
        [(''https://index.docker.io/v2/myrepo/app/tags/list'',
            \<lparr>code = 200, msg = ''OK'', getheader = no_headers,
             body = ''{"tags":["v1","v2","latest"]}'',
             raw_body = ''{"tags":["v1","v2","latest"]}''\<rparr>),
         (''https://index.docker.io/v2/myrepo/empty/tags/list'',
            \<lparr>code = 200, msg = ''OK'', getheader = no_headers, body = ''{"tags":null}'',
             raw_body = ''{"tags":null}''\<rparr>),
         (''https://index.docker.io/v2/myrepo/app/manifests/v1'', manifest ''sha256:aaaa''),
         (''https://index.docker.io/v2/myrepo/app/manifests/v2'', manifest ''sha256:bbbb''),
         (''https://index.docker.io/v2/myrepo/app/manifests/latest'', manifest ''sha256:aaaa''),
         (''https://index.docker.io/v2/myrepo/app/manifests/sha256:aaaa'', manifest ''sha256:aaaa''),
         (''https://index.docker.io/v2/myrepo/app/manifests/sha256:abcd'', manifest ''sha256:abcd'')]
        (req_url rq) of
        None \<Rightarrow>
          (if req_method rq = ''HEAD'' then not_found\<lparr>body := [], raw_body := []\<rparr>
           else not_found)
      | Some r \<Rightarrow> r)\<close>

text \<open>The challenge of the specification, and one that gives a realm only.\<close>

definition full_challenge :: string where
  \<open>full_challenge =
     ''Bearer realm="https://auth.example/token",service="registry.example",scope="repo:foo/bar:pull"''\<close>

definition realm_only_challenge :: string where
  \<open>realm_only_challenge = ''Bearer realm="https://auth.example/token"''\<close>

text \<open>Registries that answer 401 to every request: without a challenge, with the
  realm-only challenge, and with the full challenge even after the token service (the
  one URL answered with 200) has given a token.\<close>

definition bare_401 :: "request list \<Rightarrow> request \<Rightarrow> response" where
  "bare_401 history rq = unauthorized no_headers"

definition realm_only_401 :: "request list \<Rightarrow> request \<Rightarrow> response" where
  "realm_only_401 history rq = unauthorized (www_authenticate realm_only_challenge)"

definition token_service :: "request list \<Rightarrow> request \<Rightarrow> response" where
  \<open>token_service history rq =
     (if req_url rq
           = ''https://auth.example/token?service=registry.example&scope=repo%3Afoo%2Fbar%3Apull''
      then \<lparr>code = 200, msg = ''OK'', getheader = no_headers, body = ''{"token":"abc"}'',
            raw_body = ''{"token":"abc"}''\<rparr>
      else unauthorized (www_authenticate full_challenge))\<close>

text \<open>The same registry with a token service that does not know the realm URL.\<close>

definition token_service_404 :: "request list \<Rightarrow> request \<Rightarrow> response" where
  \<open>token_service_404 history rq =
     (if req_url rq
           = ''https://auth.example/token?service=registry.example&scope=repo%3Afoo%2Fbar%3Apull''
      then \<lparr>code = 404, msg = ''Not Found'', getheader = no_headers, body = [], raw_body = []\<rparr>
      else unauthorized (www_authenticate full_challenge))\<close>

text \<open>A command line without \<^verbatim>\<open>--token\<close> and \<^verbatim>\<open>--url\<close>, and one with
  \<^verbatim>\<open>--url index.docker.io\<close>, a URL without a scheme.\<close>

definition cli :: "string \<Rightarrow> bool \<Rightarrow> args" where
  "cli ref all_flag =
     \<lparr>arg_name = ref, arg_all = all_flag, arg_token = None, arg_url = ''https://index.docker.io''\<rparr>"

definition cli_no_scheme :: "string \<Rightarrow> bool \<Rightarrow> args" where
  "cli_no_scheme ref all_flag =
     \<lparr>arg_name = ref, arg_all = all_flag, arg_token = None, arg_url = ''index.docker.io''\<rparr>"

lemmas run_defs = main_def parse_reference_def split_reference_def driver_def try_block_def
  get_manifests_list_digest_def api_call_def authorize_def urlopen_def Registry_def
  py_str_def list_images_def list_tags_def json_load_def print_def
  setdefault_append_def except_clause_def except_HTTPError_def str_HTTPError_def str_nat.simps
  get_token_def token_request_def token_url_def Request_def dict_of_def match_kv_def is_word_def is_space_def bare_def
  dquote_def

lemmas sample_defs = sample_env_def open_registry_def cli_def manifest_def digest_header_def
  sample_loads_def not_found_def no_headers_def sample_repr_def sample_urlencode_def
  www_authenticate_def unauthorized_def full_challenge_def realm_only_challenge_def
  bare_401_def realm_only_401_def token_service_def token_service_404_def
  unknown_url_type_def unwrap_def strip_def splittag_def cli_no_scheme_def

section \<open>Properties\<close>

subsection \<open>Parsing the reference\<close>

lemma str_partition_found:
  "sep \<notin> set h \<Longrightarrow> str_partition sep (h @ sep # t) = (h, [sep], t)"
  by (induction h) auto

lemma str_partition_absent:
  "sep \<notin> set s \<Longrightarrow> str_partition sep s = (s, [], [])"
  by (induction s) auto

lemma parse_reference_digest:
  assumes "CHR ''@'' \<notin> set n" and "d \<noteq> []"
  shows "parse_reference (n @ CHR ''@'' # d) False =
           (if CHR ''/'' \<notin> set n then ''library/'' @ n else n, Some d)"
  using assms by (simp add: split_reference_def parse_reference_def str_partition_found)

text \<open>The tag of a parsed reference is \<^verbatim>\<open>None\<close> or a non-empty str, never the empty
  str: this is why \<^verbatim>\<open>if tag:\<close> in the \<^verbatim>\<open>try\<close> statement is a test for \<^verbatim>\<open>None\<close>.\<close>

lemma parse_reference_tag_nonempty:
  "snd (parse_reference ref all_flag) \<noteq> Some []"
  by (simp add: parse_reference_def split_reference_def split: prod.splits)

text \<open>
  C6. A reference with an \<open>@\<close> that is followed by a non-empty digest is split at its
  first \<open>@\<close>: the name is what stands before it, and the disambiguator is everything
  after it, whatever colons the reference contains.
\<close>

theorem digest_takes_precedence:
  assumes "CHR ''@'' \<notin> set n" and "d \<noteq> []"
  shows "split_reference (n @ CHR ''@'' # d) = (n, d)
         \<and> snd (parse_reference (n @ CHR ''@'' # d) False) = Some d"
  using assms by (simp add: split_reference_def parse_reference_def str_partition_found)

text \<open>C6 on a reference whose name has a colon (a registry port).\<close>

theorem digest_takes_precedence_witness:
  "CHR ''@'' \<notin> set ''myrepo:5000/app'' \<and> ''sha256:abcd'' \<noteq> []
   \<and> split_reference ''myrepo:5000/app@sha256:abcd'' = (''myrepo:5000/app'', ''sha256:abcd'')
   \<and> snd (parse_reference ''myrepo:5000/app@sha256:abcd'' False) = Some ''sha256:abcd''"
  using digest_takes_precedence [of "''myrepo:5000/app''" "''sha256:abcd''"] by simp

text \<open>
  C7. A reference with neither \<open>@\<close> nor \<open>:\<close> is resolved to the tag \<open>latest\<close>.
\<close>

theorem default_tag_latest:
  assumes "CHR ''@'' \<notin> set ref" and "CHR '':'' \<notin> set ref"
  shows "split_reference ref = (ref, ''latest'')
         \<and> snd (parse_reference ref False) = Some ''latest''"
  using assms by (simp add: split_reference_def parse_reference_def str_partition_absent)

text \<open>C7 on the reference \<^verbatim>\<open>nginx\<close>.\<close>

theorem default_tag_latest_witness:
  "CHR ''@'' \<notin> set ''nginx'' \<and> CHR '':'' \<notin> set ''nginx''
   \<and> split_reference ''nginx'' = (''nginx'', ''latest'')
   \<and> snd (parse_reference ''nginx'' False) = Some ''latest''"
  using default_tag_latest [of "''nginx''"] by simp

subsection \<open>What the operations leave unchanged\<close>

text \<open>\<^verbatim>\<open>urlopen\<close> adds its request to the log and changes nothing else; \<^verbatim>\<open>get_token\<close>
  makes one request, or none when \<^verbatim>\<open>Request\<close> rejects its URL, and may change the token
  only. An \<^verbatim>\<open>api_call\<close> makes at most three requests, each to its own URL or to a token
  service, and prints nothing.\<close>

lemma urlopen_state:
  "urlopen env rq s = (res, s') \<Longrightarrow> s' = s\<lparr>sent := sent s @ [rq]\<rparr>"
  by (auto simp: urlopen_def Let_def split: if_splits sum.splits)

lemma Request_accepts:
  "\<not> request_raises env u
   \<Longrightarrow> Request env u method headers
       = Inr \<lparr>req_url = u, req_method = method, req_headers = headers\<rparr>"
  by (simp add: Request_def)

lemma Request_cases:
  "Request env u method headers = Inl e \<Longrightarrow> e = ValueError \<and> request_raises env u"
  "Request env u method headers = Inr rq
   \<Longrightarrow> rq = \<lparr>req_url = u, req_method = method, req_headers = headers\<rparr>
       \<and> \<not> request_raises env u"
  by (auto simp: Request_def split: if_splits)

lemma get_token_frame:
  assumes "get_token env realm service scope s = (res, s')"
  shows "url s' = url s \<and> printed s' = printed s
         \<and> sent s' = sent s @ (if request_raises env (token_url env realm service scope) then []
                                  else [token_request env realm service scope])"
  using assms
  by (auto simp: get_token_def Request_def token_request_def
      split: prod.splits sum.splits if_splits dest!: urlopen_state)

lemma get_token_Inr:
  assumes "get_token env realm service scope s = (Inr u, s')"
  shows "\<not> request_raises env (token_url env realm service scope)"
  using assms by (auto simp: get_token_def Request_def split: if_splits)

lemma except_clause_frame:
  assumes "except_clause env path method headers c m fp s = (res, s')"
  shows "url s' = url s \<and> printed s' = printed s
         \<and> (\<exists>new. sent s' = sent s @ new \<and> length new \<le> 2
              \<and> (\<forall>rq\<in>set new. (\<exists>r sv sc. rq = token_request env r sv sc)
                     \<or> req_url rq = url s @ path))"
proof (cases "\<exists>realm service scope s1 v rq.
    get_token env realm service scope s = (Inr (), s1)
    \<and> Request env (url s1 @ path) method (AList.update ''Authorization'' v headers) = Inr rq
    \<and> urlopen env rq s1 = (res, s')")
  case True
  then obtain realm service scope s1 v rq where
    g: "get_token env realm service scope s = (Inr (), s1)"
    and r: "Request env (url s1 @ path) method (AList.update ''Authorization'' v headers) = Inr rq"
    and u: "urlopen env rq s1 = (res, s')"
    by blast
  from get_token_frame [OF g] get_token_Inr [OF g]
  have s1: "url s1 = url s" "printed s1 = printed s"
    "sent s1 = sent s @ [token_request env realm service scope]"
    by simp_all
  from Request_cases(2) [OF r] s1 have rq: "req_url rq = url s @ path"
    by simp
  from urlopen_state [OF u] s1
  have "url s' = url s" "printed s' = printed s"
    "sent s' = sent s @ [token_request env realm service scope, rq]"
    by simp_all
  with rq show ?thesis
    by auto
next
  case False
  with assms have "\<exists>realm service scope e. get_token env realm service scope s = (e, s') \<or> s' = s"
    by (auto simp: except_clause_def Let_def
        split: if_splits option.splits prod.splits sum.splits)
  then consider (same) "s' = s"
    | (token) realm service scope e where "get_token env realm service scope s = (e, s')"
    by blast
  then show ?thesis
  proof cases
    case same
    then show ?thesis by simp
  next
    case token
    from get_token_frame [OF token] show ?thesis
      by (cases "request_raises env (token_url env realm service scope)") auto
  qed
qed

lemma api_call_frame:
  assumes "api_call env path method headers s = (res, s')"
  shows "url s' = url s \<and> printed s' = printed s
         \<and> (\<exists>new. sent s' = sent s @ new \<and> length new \<le> 3
              \<and> (\<forall>rq\<in>set new. (\<exists>r sv sc. rq = token_request env r sv sc)
                     \<or> req_url rq = url s @ path))"
proof (cases "\<exists>hs rq. authorize (token s) headers = Inr hs
    \<and> Request env (url s @ path) method hs = Inr rq")
  case False
  with assms have "s' = s"
    by (auto simp: api_call_def split: sum.splits)
  then show ?thesis by simp
next
  case True
  then obtain hs rq where a: "authorize (token s) headers = Inr hs"
    and r: "Request env (url s @ path) method hs = Inr rq"
    by blast
  from Request_cases(2) [OF r] have rq: "req_url rq = url s @ path"
    by simp
  obtain r1 s1 where u: "urlopen env rq s = (r1, s1)"
    by (cases "urlopen env rq s")
  from urlopen_state [OF u]
  have s1: "url s1 = url s" "printed s1 = printed s" "sent s1 = sent s @ [rq]"
    by simp_all
  show ?thesis
  proof (cases "\<exists>c m fp. r1 = Inl (HTTPError c m fp)")
    case False
    with assms a r u have "s' = s1"
      by (auto simp: api_call_def split: sum.splits error.splits)
    with s1 rq show ?thesis by simp
  next
    case True
    then obtain c m fp where "r1 = Inl (HTTPError c m fp)"
      by blast
    with assms a r u have "except_clause env path method hs c m fp s1 = (res, s')"
      by (simp add: api_call_def)
    from except_clause_frame [OF this] obtain new where
      "url s' = url s1" "printed s' = printed s1" "sent s' = sent s1 @ new" "length new \<le> 2"
      "\<forall>x\<in>set new. (\<exists>r sv sc. x = token_request env r sv sc) \<or> req_url x = url s1 @ path"
      by blast
    with s1 rq show ?thesis
      by (intro conjI exI [of _ "rq # new"]) auto
  qed
qed

text \<open>Every operation on a repository keeps the registry URL and adds only requests
  for that repository, or to a token service; only the driver prints.\<close>

lemma requests_added_refl: "requests_added env name s s"
  by (simp add: requests_added_def)

lemma requests_added_trans:
  "requests_added env name s s1 \<Longrightarrow> requests_added env name s1 s2 \<Longrightarrow> requests_added env name s s2"
  by (auto simp: requests_added_def)

lemma requests_added_print: "requests_added env name s (print line s)"
  by (simp add: requests_added_def print_def)

lemma api_call_requests_added:
  assumes "api_call env (''/v2/'' @ name @ ''/'' @ rest) method headers s = (res, s')"
  shows "requests_added env name s s' \<and> printed s' = printed s"
proof -
  from api_call_frame [OF assms] obtain new where
    u: "url s' = url s" and p: "printed s' = printed s" and n: "sent s' = sent s @ new"
    and a: "\<forall>rq\<in>set new. (\<exists>r sv sc. rq = token_request env r sv sc)
              \<or> req_url rq = url s @ ''/v2/'' @ name @ ''/'' @ rest"
    by blast
  from a have "list_all (names_repository env (url s) name) new"
    unfolding list_all_iff names_repository_def by blast
  with u p n show ?thesis
    unfolding requests_added_def by blast
qed

lemma list_tags_frame:
  assumes "list_tags env name s = (res, s')"
  shows "requests_added env name s s' \<and> printed s' = printed s"
  using assms api_call_requests_added [of env name "''tags/list''" "''GET''" "[]" s]
  by (auto simp: list_tags_def split: prod.splits sum.splits)

lemma get_manifests_list_digest_frame:
  assumes "get_manifests_list_digest env name ref s = (res, s')"
  shows "requests_added env name s s' \<and> printed s' = printed s"
  using assms api_call_requests_added [of env name "''manifests/'' @ py_str env ref" "''HEAD''" _ s]
  by (auto simp: get_manifests_list_digest_def split: prod.splits sum.splits)

lemma list_images_loop_frame:
  "list_images_loop env name tags images s = (res, s')
   \<Longrightarrow> requests_added env name s s' \<and> printed s' = printed s"
proof (induction tags arbitrary: images s)
  case Nil
  then show ?case by (simp add: requests_added_refl)
next
  case (Cons tag tags)
  obtain r1 s1 where g: "get_manifests_list_digest env name tag s = (r1, s1)"
    by (cases "get_manifests_list_digest env name tag s")
  note f = get_manifests_list_digest_frame [OF g]
  show ?case
  proof (cases r1)
    case (Inl e)
    with Cons.prems g f show ?thesis by simp
  next
    case (Inr digest)
    with Cons.prems g
    have "list_images_loop env name tags (setdefault_append images digest tag) s1 = (res, s')"
      by simp
    from Cons.IH [OF this] f show ?thesis
      by (auto intro: requests_added_trans)
  qed
qed

lemma list_images_frame:
  assumes "list_images env name s = (res, s')"
  shows "requests_added env name s s' \<and> printed s' = printed s"
proof -
  obtain r1 s1 where t: "list_tags env name s = (r1, s1)"
    by (cases "list_tags env name s")
  note f = list_tags_frame [OF t]
  show ?thesis
  proof (cases r1)
    case (Inl e)
    with assms t f show ?thesis by (simp add: list_images_def)
  next
    case (Inr tags)
    show ?thesis
    proof (cases "py_iter tags")
      case (Inl e)
      with assms t f Inr show ?thesis by (simp add: list_images_def)
    next
      case (Inr items)
      with assms t \<open>r1 = Inr tags\<close>
      have "list_images_loop env name items [] s1 = (res, s')"
        by (simp add: list_images_def)
      from list_images_loop_frame [OF this] f show ?thesis
        by (auto intro: requests_added_trans)
    qed
  qed
qed

lemma print_images_frame:
  "print_images images s = (res, s')
   \<Longrightarrow> requests_added env name s s' \<and> (\<forall>c m fp. res \<noteq> Inl (HTTPError c m fp))"
proof (induction images arbitrary: s)
  case Nil
  then show ?case by (auto simp: requests_added_refl)
next
  case (Cons p images)
  obtain digest tags where p: "p = (digest, tags)" by (cases p)
  show ?case
  proof (cases digest)
    case None
    with Cons.prems p show ?thesis by (auto simp: requests_added_refl)
  next
    case (Some d)
    show ?thesis
    proof (cases "str_join '' '' tags")
      case (Inl e)
      with Cons.prems p Some have "res = Inl e" "s' = s" by auto
      moreover have "e = TypeError"
        using Inl by (induction "'' ''" tags rule: str_join.induct) (auto split: sum.splits)
      ultimately show ?thesis by (simp add: requests_added_refl)
    next
      case (Inr line)
      with Cons.prems p Some
      have "print_images images (print (d @ '': '' @ line) s) = (res, s')" by simp
      from Cons.IH [OF this] show ?thesis
        by (auto intro: requests_added_trans [OF requests_added_print])
    qed
  qed
qed

lemma try_block_frame:
  assumes "try_block env name tag s = (res, s')"
  shows "requests_added env name s s'"
proof (cases tag)
  case None
  obtain r1 s1 where l: "list_images env name s = (r1, s1)"
    by (cases "list_images env name s")
  from list_images_frame [OF l] assms None l show ?thesis
    by (cases r1) (auto simp: try_block_def dest: print_images_frame [where env = env and name = name]
        intro: requests_added_trans)
next
  case (Some t)
  obtain r1 s1 where g: "get_manifests_list_digest env name (JStr t) s = (r1, s1)"
    by (cases "get_manifests_list_digest env name (JStr t) s")
  obtain r2 s2 where l: "list_images env name s1 = (r2, s2)"
    by (cases "list_images env name s1")
  from get_manifests_list_digest_frame [OF g] list_images_frame [OF l] assms Some g l
  show ?thesis
    by (cases r1; cases r2)
      (auto simp: try_block_def split: option.splits sum.splits
        intro: requests_added_trans requests_added_print)
qed

lemma try_block_HTTPError_printed:
  assumes "try_block env name tag s = (Inl (HTTPError c m fp), s')"
  shows "printed s' = printed s"
proof (cases tag)
  case None
  obtain r1 s1 where l: "list_images env name s = (r1, s1)"
    by (cases "list_images env name s")
  from list_images_frame [OF l] assms None l show ?thesis
    by (cases r1) (auto simp: try_block_def dest: print_images_frame [where env = env and name = name])
next
  case (Some t)
  obtain r1 s1 where g: "get_manifests_list_digest env name (JStr t) s = (r1, s1)"
    by (cases "get_manifests_list_digest env name (JStr t) s")
  obtain r2 s2 where l: "list_images env name s1 = (r2, s2)"
    by (cases "list_images env name s1")
  from get_manifests_list_digest_frame [OF g] list_images_frame [OF l] assms Some g l
  show ?thesis
    by (cases r1; cases r2)
      (auto simp: try_block_def split: option.splits sum.splits)
qed

lemma print_errors_sent:
  "print_errors env errs s = (res, s') \<Longrightarrow> sent s' = sent s \<and> url s' = url s"
  by (induction errs arbitrary: s)
    (auto simp: Let_def print_def split: sum.splits)

lemma except_HTTPError_sent:
  "except_HTTPError env c m fp s = (out, s') \<Longrightarrow> sent s' = sent s \<and> url s' = url s"
  by (auto simp: except_HTTPError_def Let_def print_def
      split: if_splits option.splits sum.splits prod.splits dest!: print_errors_sent)

lemma driver_frame:
  assumes "driver env name tag s = (out, s')"
  shows "requests_added env name s s'"
proof -
  obtain r1 s1 where t: "try_block env name tag s = (r1, s1)"
    by (cases "try_block env name tag s")
  note f = try_block_frame [OF t]
  from assms t have "sent s' = sent s1 \<and> url s' = url s1"
    by (auto simp: driver_def split: sum.splits error.splits dest: except_HTTPError_sent)
  with f show ?thesis
    by (auto simp: requests_added_def)
qed

text \<open>The first request of an \<^verbatim>\<open>api_call\<close>, and of the \<^verbatim>\<open>try\<close> statement for a tag or
  digest.\<close>

lemma authorize_Registry:
  "authorize (token (Registry u t)) headers =
     Inr (case t of
            None \<Rightarrow> headers
          | Some x \<Rightarrow> if x = [] then headers
                      else AList.update ''Authorization'' (''Bearer '' @ x) headers)"
  by (simp add: authorize_def Registry_def split: option.splits)

lemma api_call_rejected:
  assumes "authorize (token s) headers = Inr hs"
    and "request_raises env (url s @ path)"
  shows "api_call env path method headers s = (Inl ValueError, s)"
  using assms by (simp add: api_call_def Request_def)

lemma api_call_first_request:
  assumes "authorize (token s) headers = Inr hs"
    and "\<not> request_raises env (url s @ path)"
  shows "\<exists>more. sent (snd (api_call env path method headers s)) =
           sent s @ \<lparr>req_url = url s @ path, req_method = method, req_headers = hs\<rparr> # more"
proof -
  let ?rq = "\<lparr>req_url = url s @ path, req_method = method, req_headers = hs\<rparr>"
  have r: "Request env (url s @ path) method hs = Inr ?rq"
    using assms(2) by (rule Request_accepts)
  obtain r1 s1 where u: "urlopen env ?rq s = (r1, s1)"
    by (cases "urlopen env ?rq s")
  then have s1: "sent s1 = sent s @ [?rq]"
    by (auto dest: urlopen_state)
  show ?thesis
  proof (cases r1)
    case (Inr response)
    with assms r u s1 show ?thesis by (simp add: api_call_def)
  next
    case (Inl e)
    show ?thesis
    proof (cases e)
      case (HTTPError c m fp)
      obtain r2 s2 where x: "except_clause env path method hs c m fp s1 = (r2, s2)"
        by (cases "except_clause env path method hs c m fp s1")
      from except_clause_frame [OF x] obtain new where "sent s2 = sent s1 @ new"
        by blast
      with assms r u s1 Inl HTTPError x show ?thesis
        by (simp add: api_call_def)
    qed (use assms r u s1 Inl in \<open>simp_all add: api_call_def\<close>)
  qed
qed

lemma requests_added_sent:
  "requests_added env name s s' \<Longrightarrow> \<exists>new. sent s' = sent s @ new"
  by (auto simp: requests_added_def)

lemma driver_sent:
  "sent (snd (driver env name tag s)) = sent (snd (try_block env name tag s))"
proof -
  obtain r1 s1 where t: "try_block env name tag s = (r1, s1)"
    by (cases "try_block env name tag s")
  obtain out s' where d: "driver env name tag s = (out, s')"
    by (cases "driver env name tag s")
  from d t have "sent s' = sent s1"
    by (auto simp: driver_def split: sum.splits error.splits dest: except_HTTPError_sent)
  with t d show ?thesis by simp
qed

lemma try_block_rejected:
  assumes "authorize (token s)
      [(''Accept'', ''application/vnd.docker.distribution.manifest.list.v2+json'')] = Inr hs"
    and "request_raises env (url s @ ''/v2/'' @ name @ ''/manifests/'' @ t)"
  shows "try_block env name (Some t) s = (Inl ValueError, s)"
  using api_call_rejected [OF assms(1), of env "''/v2/'' @ name @ ''/manifests/'' @ t" "''HEAD''"]
    assms(2)
  by (simp add: try_block_def get_manifests_list_digest_def py_str_def)

lemma try_block_first_request:
  assumes "authorize (token s)
      [(''Accept'', ''application/vnd.docker.distribution.manifest.list.v2+json'')] = Inr hs"
    and "\<not> request_raises env (url s @ ''/v2/'' @ name @ ''/manifests/'' @ t)"
  shows "\<exists>more. sent (snd (try_block env name (Some t) s)) =
           sent s @ \<lparr>req_url = url s @ ''/v2/'' @ name @ ''/manifests/'' @ t,
                      req_method = ''HEAD'', req_headers = hs\<rparr> # more"
proof -
  let ?rq = "\<lparr>req_url = url s @ ''/v2/'' @ name @ ''/manifests/'' @ t,
               req_method = ''HEAD'', req_headers = hs\<rparr>"
  obtain r1 s1 where g: "get_manifests_list_digest env name (JStr t) s = (r1, s1)"
    by (cases "get_manifests_list_digest env name (JStr t) s")
  from api_call_first_request [OF assms(1), of env "''/v2/'' @ name @ ''/manifests/'' @ t" "''HEAD''"]
    assms(2)
  obtain more where "sent (snd (api_call env (''/v2/'' @ name @ ''/manifests/'' @ t) ''HEAD''
      [(''Accept'', ''application/vnd.docker.distribution.manifest.list.v2+json'')] s))
      = sent s @ ?rq # more"
    by auto
  with g have s1: "sent s1 = sent s @ ?rq # more"
    by (auto simp: get_manifests_list_digest_def py_str_def split: prod.splits sum.splits)
  obtain r2 s2 where l: "list_images env name s1 = (r2, s2)"
    by (cases "list_images env name s1")
  from list_images_frame [OF l] obtain new where s2: "sent s2 = sent s1 @ new"
    by (auto dest: requests_added_sent)
  from g l s1 s2 show ?thesis
    by (cases r1; cases r2)
      (auto simp: try_block_def print_def split: option.splits sum.splits)
qed

subsection \<open>\<^verbatim>\<open>api_call\<close> and the 401 challenge\<close>

text \<open>An \<^verbatim>\<open>api_call\<close> whose request is accepted and answered with 401 is its
  \<^verbatim>\<open>except\<close> clause, entered after that one request.\<close>

lemma api_call_401:
  assumes "authorize (token s) headers = Inr hs"
    and "\<not> request_raises env (url s @ path)"
    and "rq = \<lparr>req_url = url s @ path, req_method = method, req_headers = hs\<rparr>"
    and "net env (sent s) rq = Inr fp"
    and "code fp = 401"
  shows "api_call env path method headers s
    = except_clause env path method hs 401 (msg fp) fp (s\<lparr>sent := sent s @ [rq]\<rparr>)"
proof -
  have "Request env (url s @ path) method hs = Inr rq"
    using assms(2,3) by (simp add: Request_def)
  moreover have "urlopen env rq s
      = (Inl (HTTPError 401 (msg fp) fp), s\<lparr>sent := sent s @ [rq]\<rparr>)"
    using assms(4,5) by (simp add: urlopen_def Let_def)
  ultimately show ?thesis
    using assms(1) by (simp add: api_call_def)
qed

text \<open>An exception of \<^verbatim>\<open>urlopen\<close> that is no \<^verbatim>\<open>HTTPError\<close> leaves \<^verbatim>\<open>api_call\<close> as it
  is.\<close>

lemma api_call_urlopen_raises:
  assumes "authorize (token s) headers = Inr hs"
    and "\<not> request_raises env (url s @ path)"
    and "rq = \<lparr>req_url = url s @ path, req_method = method, req_headers = hs\<rparr>"
    and "net env (sent s) rq = Inl n"
  shows "api_call env path method headers s
    = (Inl (OtherError n), s\<lparr>sent := sent s @ [rq]\<rparr>)"
  using assms by (simp add: api_call_def Request_def urlopen_def Let_def)

text \<open>A 401 whose \<^verbatim>\<open>WWW-Authenticate\<close> header is there and has no \<^verbatim>\<open>Bearer\<close> followed
  by white space is raised again as it came, after the one request, with the token
  untouched.\<close>

lemma no_bearer_reraises:
  assumes "authorize (token s) headers = Inr hs"
    and "\<not> request_raises env (url s @ path)"
    and "rq = \<lparr>req_url = url s @ path, req_method = method, req_headers = hs\<rparr>"
    and "net env (sent s) rq = Inr fp"
    and "code fp = 401"
    and "getheader fp ''WWW-Authenticate'' = Some auth"
    and "search_bearer auth = None"
  shows "api_call env path method headers s
    = (Inl (HTTPError 401 (msg fp) fp), s\<lparr>sent := sent s @ [rq]\<rparr>)"
  unfolding api_call_401 [OF assms(1-5)] using assms(6,7) by (simp add: except_clause_def)

text \<open>When the header is absent, \<^verbatim>\<open>getheader\<close> returns \<^verbatim>\<open>None\<close> and \<^verbatim>\<open>re.search\<close>
  raises \<^verbatim>\<open>TypeError\<close>: line 64 is not reached.\<close>

lemma absent_header_raises_TypeError:
  assumes "authorize (token s) headers = Inr hs"
    and "\<not> request_raises env (url s @ path)"
    and "rq = \<lparr>req_url = url s @ path, req_method = method, req_headers = hs\<rparr>"
    and "net env (sent s) rq = Inr fp"
    and "code fp = 401"
    and "getheader fp ''WWW-Authenticate'' = None"
  shows "api_call env path method headers s = (Inl TypeError, s\<lparr>sent := sent s @ [rq]\<rparr>)"
  unfolding api_call_401 [OF assms(1-5)] using assms(6) by (simp add: except_clause_def)

text \<open>
  C1, at a 401 response that has no \<^verbatim>\<open>WWW-Authenticate\<close> header: the claim asks for
  the 401 to be raised again; \<^verbatim>\<open>api_call\<close> raises \<^verbatim>\<open>TypeError\<close>. One request has been
  made and no token has been asked for.
\<close>

theorem absent_header_type_error:
  "api_call (sample_env bare_401) ''/v2/library/nginx/tags/list'' ''GET'' []
     (Registry ''https://index.docker.io'' None)
   = (Inl TypeError,
      \<lparr>url = ''https://index.docker.io'', token = JNull,
       sent = [\<lparr>req_url = ''https://index.docker.io/v2/library/nginx/tags/list'',
                req_method = ''GET'', req_headers = []\<rparr>],
       printed = []\<rparr>)"
  by (simp add: run_defs sample_defs)






text \<open>
  Against C3 as stated: the registry answers 401 with the challenge of the
  specification, and the token service answers the request of \<^verbatim>\<open>get_token\<close> with 404.
  \<^verbatim>\<open>api_call\<close> has made two requests, the original one and the one for the token, and
  raises the 404 of the token service: the original request is not retried.
\<close>

theorem refresh_without_retry:
  "net (sample_env token_service_404) []
        \<lparr>req_url = ''https://index.docker.io/v2/foo/bar/tags/list'',
         req_method = ''GET'', req_headers = []\<rparr>
     = Inr (unauthorized (www_authenticate full_challenge))
   \<and> getheader (unauthorized (www_authenticate full_challenge)) ''WWW-Authenticate''
       = Some full_challenge
   \<and> search_bearer full_challenge = Some (drop 7 full_challenge)
   \<and> dict_of (findall_kv (drop 7 full_challenge))
       = [(''realm'', ''https://auth.example/token''), (''service'', ''registry.example''),
          (''scope'', ''repo:foo/bar:pull'')]
   \<and> sent (snd (api_call (sample_env token_service_404) ''/v2/foo/bar/tags/list'' ''GET'' []
        (Registry ''https://index.docker.io'' None)))
       = [\<lparr>req_url = ''https://index.docker.io/v2/foo/bar/tags/list'',
           req_method = ''GET'', req_headers = []\<rparr>,
          \<lparr>req_url = ''https://auth.example/token?service=registry.example&scope=repo%3Afoo%2Fbar%3Apull'',
           req_method = ''GET'', req_headers = []\<rparr>]
   \<and> fst (api_call (sample_env token_service_404) ''/v2/foo/bar/tags/list'' ''GET'' []
        (Registry ''https://index.docker.io'' None))
       = Inl (HTTPError 404 ''Not Found''
           \<lparr>code = 404, msg = ''Not Found'', getheader = no_headers, body = [], raw_body = []\<rparr>)"
  by (simp add: run_defs sample_defs)

text \<open>
  C3, amended. When the request of an \<^verbatim>\<open>api_call\<close> is answered with 401 and a challenge
  from which \<^verbatim>\<open>realm\<close>, \<^verbatim>\<open>service\<close> and \<^verbatim>\<open>scope\<close> are extracted, \<^verbatim>\<open>get_token\<close> is called
  once, with these three values, and makes its one request (none if the realm is a URL
  that \<^verbatim>\<open>Request\<close> rejects). When \<^verbatim>\<open>get_token\<close> returns and has stored a str token,
  \<^verbatim>\<open>api_call\<close> is the outcome of one more \<^verbatim>\<open>urlopen\<close>, of the first request with
  \<^verbatim>\<open>Authorization: Bearer\<close> and the new token: three requests in all, whatever the
  answer to the third. When \<^verbatim>\<open>get_token\<close> raises, its exception leaves \<^verbatim>\<open>api_call\<close>, and
  when the token is no str, \<^verbatim>\<open>TypeError\<close> does; in both cases nothing is retried.
\<close>

theorem refresh_and_retry_once:
  assumes "authorize (token s) headers = Inr hs"
    and "\<not> request_raises env (url s @ path)"
    and "rq = \<lparr>req_url = url s @ path, req_method = method, req_headers = hs\<rparr>"
    and "net env (sent s) rq = Inr fp"
    and "code fp = 401"
    and "getheader fp ''WWW-Authenticate'' = Some auth"
    and "search_bearer auth = Some rest"
    and "map_of (dict_of (findall_kv rest)) ''realm'' = Some realm"
    and "map_of (dict_of (findall_kv rest)) ''service'' = Some service"
    and "map_of (dict_of (findall_kv rest)) ''scope'' = Some scope"
    and "get_token env realm service scope (s\<lparr>sent := sent s @ [rq]\<rparr>) = (res2, s2)"
  shows "sent s2 = sent s @ rq #
             (if request_raises env (token_url env realm service scope) then []
              else [token_request env realm service scope])
         \<and> (case res2 of
               Inl e \<Rightarrow> api_call env path method headers s = (Inl e, s2)
             | Inr _ \<Rightarrow>
                 (case token s2 of
                    JStr tok \<Rightarrow>
                      api_call env path method headers s
                        = urlopen env
                            (rq\<lparr>req_headers := AList.update ''Authorization'' (''Bearer '' @ tok) hs\<rparr>)
                            s2
                      \<and> sent (snd (api_call env path method headers s))
                          = sent s @ [rq, token_request env realm service scope,
                              rq\<lparr>req_headers :=
                                   AList.update ''Authorization'' (''Bearer '' @ tok) hs\<rparr>]
                  | _ \<Rightarrow> api_call env path method headers s = (Inl TypeError, s2)))"
proof -
  let ?s1 = "s\<lparr>sent := sent s @ [rq]\<rparr>"
  note a = api_call_401 [OF assms(1-5)]
  have e: "except_clause env path method hs 401 (msg fp) fp ?s1
      = (case res2 of
           Inl e \<Rightarrow> (Inl e, s2)
         | Inr _ \<Rightarrow>
             (case str_add ''Bearer '' (token s2) of
                Inl e \<Rightarrow> (Inl e, s2)
              | Inr v \<Rightarrow>
                  (case Request env (url s2 @ path) method
                          (AList.update ''Authorization'' v hs) of
                     Inl e \<Rightarrow> (Inl e, s2)
                   | Inr request \<Rightarrow> urlopen env request s2)))"
    by (simp add: except_clause_def assms(6-11) split: sum.splits)
  from get_token_frame [OF assms(11)]
  have f: "url s2 = url s"
    "sent s2 = sent s @ rq #
       (if request_raises env (token_url env realm service scope) then []
        else [token_request env realm service scope])"
    by simp_all
  show ?thesis
  proof (cases res2)
    case (Inl x)
    with a e f show ?thesis by simp
  next
    case (Inr y)
    with assms(11) have ok: "\<not> request_raises env (token_url env realm service scope)"
      by (auto dest: get_token_Inr)
    show ?thesis
    proof (cases "token s2")
      case (JStr tok)
      let ?retry = "rq\<lparr>req_headers := AList.update ''Authorization'' (''Bearer '' @ tok) hs\<rparr>"
      have r: "Request env (url s2 @ path) method
          (AList.update ''Authorization'' (''Bearer '' @ tok) hs) = Inr ?retry"
        using assms(2) by (simp add: Request_def assms(3) f(1))
      have c0: "except_clause env path method hs 401 (msg fp) fp ?s1
          = (case Request env (url s2 @ path) method
                    (AList.update ''Authorization'' (''Bearer '' @ tok) hs) of
               Inl e \<Rightarrow> (Inl e, s2)
             | Inr request \<Rightarrow> urlopen env request s2)"
        by (simp add: e Inr JStr)
      have c: "api_call env path method headers s = urlopen env ?retry s2"
        unfolding a c0 r by simp
      obtain r3 s3 where u3: "urlopen env ?retry s2 = (r3, s3)"
        by (cases "urlopen env ?retry s2")
      from urlopen_state [OF u3] f(2) ok
      have "sent s3 = sent s @ [rq, token_request env realm service scope, ?retry]"
        by simp
      with c u3 f ok Inr JStr show ?thesis
        by simp
    qed (use a e f Inr in simp_all)
  qed
qed

text \<open>C3, amended, on the challenge of the specification, with a token service that
  gives the token \<^verbatim>\<open>abc\<close> and a registry that answers the retried request with 401
  again: the three requests, and the second 401 as result.\<close>

theorem refresh_and_retry_once_witness:
  "authorize (token (Registry ''https://index.docker.io'' None)) [] = Inr []
   \<and> \<not> request_raises (sample_env token_service)
         ''https://index.docker.io/v2/foo/bar/tags/list''
   \<and> net (sample_env token_service) []
        \<lparr>req_url = ''https://index.docker.io/v2/foo/bar/tags/list'',
         req_method = ''GET'', req_headers = []\<rparr>
       = Inr (unauthorized (www_authenticate full_challenge))
   \<and> code (unauthorized (www_authenticate full_challenge)) = 401
   \<and> getheader (unauthorized (www_authenticate full_challenge)) ''WWW-Authenticate''
       = Some full_challenge
   \<and> search_bearer full_challenge = Some (drop 7 full_challenge)
   \<and> dict_of (findall_kv (drop 7 full_challenge))
       = [(''realm'', ''https://auth.example/token''), (''service'', ''registry.example''),
          (''scope'', ''repo:foo/bar:pull'')]
   \<and> fst (get_token (sample_env token_service) ''https://auth.example/token''
        ''registry.example'' ''repo:foo/bar:pull''
        (Registry ''https://index.docker.io'' None
           \<lparr>sent := [\<lparr>req_url = ''https://index.docker.io/v2/foo/bar/tags/list'',
                       req_method = ''GET'', req_headers = []\<rparr>]\<rparr>)) = Inr ()
   \<and> sent (snd (api_call (sample_env token_service) ''/v2/foo/bar/tags/list'' ''GET'' []
        (Registry ''https://index.docker.io'' None)))
       = [\<lparr>req_url = ''https://index.docker.io/v2/foo/bar/tags/list'',
           req_method = ''GET'', req_headers = []\<rparr>,
          \<lparr>req_url = ''https://auth.example/token?service=registry.example&scope=repo%3Afoo%2Fbar%3Apull'',
           req_method = ''GET'', req_headers = []\<rparr>,
          \<lparr>req_url = ''https://index.docker.io/v2/foo/bar/tags/list'',
           req_method = ''GET'', req_headers = [(''Authorization'', ''Bearer abc'')]\<rparr>]
   \<and> fst (api_call (sample_env token_service) ''/v2/foo/bar/tags/list'' ''GET'' []
        (Registry ''https://index.docker.io'' None))
       = Inl (HTTPError 401 ''Unauthorized'' (unauthorized (www_authenticate full_challenge)))"
proof -
  let ?E = "sample_env token_service"
  let ?s0 = "Registry ''https://index.docker.io'' None"
  let ?rq = "\<lparr>req_url = ''https://index.docker.io/v2/foo/bar/tags/list'',
         req_method = ''GET'', req_headers = []\<rparr>"
  let ?fp = "unauthorized (www_authenticate full_challenge)"
  let ?rest = "drop 7 full_challenge"
  let ?s1 = "?s0\<lparr>sent := sent ?s0 @ [?rq]\<rparr>"
  let ?g = "get_token ?E ''https://auth.example/token'' ''registry.example'' ''repo:foo/bar:pull'' ?s1"
  have 1: "authorize (token ?s0) [] = Inr []"
    by (simp add: authorize_def Registry_def)
  have c2: "\<not> request_raises ?E ''https://index.docker.io/v2/foo/bar/tags/list''"
    by (simp add: sample_defs is_space_def)
  have c3: "net ?E [] ?rq = Inr ?fp"
    by (simp add: sample_defs)
  have c4: "code ?fp = 401"
    by (simp add: sample_defs)
  have c5: "getheader ?fp ''WWW-Authenticate'' = Some full_challenge"
    by (simp add: sample_defs)
  have 2: "\<not> request_raises ?E (url ?s0 @ ''/v2/foo/bar/tags/list'')"
    using c2 by (simp add: Registry_def)
  have 3: "?rq = \<lparr>req_url = url ?s0 @ ''/v2/foo/bar/tags/list'', req_method = ''GET'',
      req_headers = []\<rparr>"
    by (simp add: Registry_def)
  have 4: "net ?E (sent ?s0) ?rq = Inr ?fp"
    using c3 by (simp add: Registry_def)
  have c6: "search_bearer full_challenge = Some ?rest"
    by (simp add: full_challenge_def is_space_def)
  have c7: "dict_of (findall_kv ?rest)
      = [(''realm'', ''https://auth.example/token''), (''service'', ''registry.example''),
         (''scope'', ''repo:foo/bar:pull'')]"
    by (simp add: full_challenge_def dict_of_def match_kv_def is_word_def bare_def dquote_def)
  have 6: "map_of (dict_of (findall_kv ?rest)) ''realm'' = Some ''https://auth.example/token''"
    and 7: "map_of (dict_of (findall_kv ?rest)) ''service'' = Some ''registry.example''"
    and 8: "map_of (dict_of (findall_kv ?rest)) ''scope'' = Some ''repo:foo/bar:pull''"
    by (simp_all add: c7)
  have g1: "fst ?g = Inr ()"
    by (simp add: run_defs sample_defs)
  have g2: "token (snd ?g) = JStr ''abc''"
    by (simp add: run_defs sample_defs)
  have 9: "?g = (Inr (), snd ?g)"
    using g1 by (simp add: prod_eq_iff)
  have c8: "fst (get_token ?E ''https://auth.example/token'' ''registry.example''
      ''repo:foo/bar:pull'' (?s0\<lparr>sent := [?rq]\<rparr>)) = Inr ()"
    using g1 by (simp add: Registry_def)
  note r = refresh_and_retry_once [OF 1 2 3 4 c4 c5 c6 6 7 8 9]
  note r3 = r [THEN conjunct2, unfolded sum.case g2 json.case, THEN conjunct2]
  from r3 have "sent (snd (api_call ?E ''/v2/foo/bar/tags/list'' ''GET'' [] ?s0))
      = sent ?s0 @ [?rq, token_request ?E ''https://auth.example/token'' ''registry.example''
            ''repo:foo/bar:pull'',
          ?rq\<lparr>req_headers := AList.update ''Authorization'' (''Bearer '' @ ''abc'') []\<rparr>]" .
  then have c9: "sent (snd (api_call ?E ''/v2/foo/bar/tags/list'' ''GET'' [] ?s0))
      = [?rq,
         \<lparr>req_url = ''https://auth.example/token?service=registry.example&scope=repo%3Afoo%2Fbar%3Apull'',
           req_method = ''GET'', req_headers = []\<rparr>,
         \<lparr>req_url = ''https://index.docker.io/v2/foo/bar/tags/list'',
           req_method = ''GET'', req_headers = [(''Authorization'', ''Bearer abc'')]\<rparr>]"
    by (simp add: Registry_def token_request_def token_url_def sample_defs)
  have c10: "fst (api_call ?E ''/v2/foo/bar/tags/list'' ''GET'' [] ?s0) = Inl (HTTPError 401 ''Unauthorized'' ?fp)"
    by (simp add: run_defs sample_defs)
  from 1 c2 c3 c4 c5 c6 c7 c8 c9 c10 show ?thesis
    by blast
qed

subsection \<open>\<^verbatim>\<open>list_images\<close>\<close>

text \<open>The loop of \<^verbatim>\<open>list_images\<close> is the grouping of the resolved digests with their
  tags; the keys and the values of a grouping.\<close>

lemma first_occurrences_remdups: "first_occurrences xs = rev (remdups (rev xs))"
proof (induction xs)
  case Nil
  then show ?case by simp
next
  case (Cons x xs)
  have "remdups (ys @ [x]) = filter (\<lambda>y. y \<noteq> x) (remdups ys) @ [x]" for ys
    by (induction ys) auto
  with Cons show ?case
    by (simp add: rev_filter)
qed

lemma set_first_occurrences [simp]: "set (first_occurrences xs) = set xs"
  by (induction xs) auto

lemma distinct_first_occurrences [simp]: "distinct (first_occurrences xs)"
  by (induction xs) auto

lemma keys_setdefault_append:
  "map fst (setdefault_append images d t) =
     (if d \<in> set (map fst images) then map fst images else map fst images @ [d])"
  by (auto simp: setdefault_append_def AList.update_keys map_of_eq_None_iff
      split: option.splits dest: map_of_SomeD)

lemma map_of_setdefault_append:
  "map_of (setdefault_append images d t) =
     (map_of images)(d \<mapsto> (case map_of images d of None \<Rightarrow> [] | Some ts \<Rightarrow> ts) @ [t])"
  by (auto simp: setdefault_append_def AList.update_conv' fun_eq_iff map_add_def
      split: option.splits)

lemma keys_group_by_digest:
  "map fst (group_by_digest images pairs) =
     map fst images @ filter (\<lambda>d. d \<notin> set (map fst images)) (first_occurrences (map fst pairs))"
proof (induction pairs arbitrary: images)
  case Nil
  then show ?case by (simp add: group_by_digest_def)
next
  case (Cons p pairs)
  have step: "group_by_digest images (p # pairs)
      = group_by_digest (setdefault_append images (fst p) (snd p)) pairs"
    by (simp add: group_by_digest_def)
  show ?case
  proof (cases "fst p \<in> set (map fst images)")
    case True
    then have "(\<lambda>d. d \<noteq> fst p \<and> d \<notin> set (map fst images)) = (\<lambda>d. d \<notin> set (map fst images))"
      by auto
    with True show ?thesis
      unfolding step Cons.IH by (simp add: keys_setdefault_append)
  next
    case False
    then show ?thesis
      unfolding step Cons.IH
      by (auto simp: keys_setdefault_append conj_commute intro!: filter_cong)
  qed
qed

lemma map_of_group_by_digest:
  "map_of (group_by_digest images pairs) d =
     (if map_of images d = None \<and> d \<notin> set (map fst pairs) then None
      else Some ((case map_of images d of None \<Rightarrow> [] | Some ts \<Rightarrow> ts)
                 @ map snd (filter (\<lambda>p. fst p = d) pairs)))"
proof (induction pairs arbitrary: images)
  case Nil
  then show ?case by (auto simp: group_by_digest_def)
next
  case (Cons p pairs)
  have step: "group_by_digest images (p # pairs)
      = group_by_digest (setdefault_append images (fst p) (snd p)) pairs"
    by (simp add: group_by_digest_def)
  show ?case
    unfolding step Cons.IH
    by (auto simp: map_of_setdefault_append split: option.splits)
qed

lemma list_images_loop_resolve:
  "list_images_loop env name tags images s =
     (case resolve_digests env name tags s of
        (Inl e, s') \<Rightarrow> (Inl e, s')
      | (Inr digests, s') \<Rightarrow> (Inr (group_by_digest images (zip digests tags)), s'))"
proof (induction tags arbitrary: images s)
  case Nil
  then show ?case by (simp add: group_by_digest_def)
next
  case (Cons tag tags)
  show ?case
    by (simp add: Cons.IH group_by_digest_def split: prod.splits sum.splits)
qed

lemma resolve_digests_length:
  "resolve_digests env name tags s = (Inr digests, s') \<Longrightarrow> length digests = length tags"
  by (induction tags arbitrary: s digests) (auto split: prod.splits sum.splits)

text \<open>
  C4. For every tag list that \<^verbatim>\<open>list_tags\<close> returns and all digests that the registry
  returns for its items, \<^verbatim>\<open>list_images\<close> returns a dict whose keys are these digests in
  the order of their first occurrence, and whose value for a digest is the list of the
  tags that resolved to it, in the order of the tag list.
\<close>

theorem list_images_groups_in_order:
  assumes "list_tags env name s = (Inr tags, s1)"
    and "py_iter tags = Inr items"
    and "resolve_digests env name items s1 = (Inr digests, s')"
  shows "\<exists>images.
           list_images env name s = (Inr images, s')
           \<and> map fst images = first_occurrences digests
           \<and> (\<forall>d. map_of images d =
                 (if d \<in> set digests
                  then Some (map snd (filter (\<lambda>p. fst p = d) (zip digests items)))
                  else None))"
proof -
  let ?images = "group_by_digest [] (zip digests items)"
  have len: "length digests = length items"
    using assms(3) by (rule resolve_digests_length)
  have "list_images env name s = (Inr ?images, s')"
    by (simp add: list_images_def assms list_images_loop_resolve)
  moreover have "map fst ?images = first_occurrences digests"
    by (simp add: keys_group_by_digest len)
  moreover have "map_of ?images d =
      (if d \<in> set digests then Some (map snd (filter (\<lambda>p. fst p = d) (zip digests items)))
       else None)" for d
    by (simp add: map_of_group_by_digest len)
  ultimately show ?thesis
    by blast
qed

text \<open>C4 on \<^verbatim>\<open>myrepo/app\<close>: the tags v1, v2, latest resolve to the digests aaaa, bbbb,
  aaaa, and the dict is aaaa with v1 and latest, then bbbb with v2.\<close>

theorem list_images_groups_in_order_witness:
  "fst (list_tags (sample_env open_registry) ''myrepo/app''
          (Registry ''https://index.docker.io'' None))
     = Inr (JArr [JStr ''v1'', JStr ''v2'', JStr ''latest''])
   \<and> py_iter (JArr [JStr ''v1'', JStr ''v2'', JStr ''latest''])
       = Inr [JStr ''v1'', JStr ''v2'', JStr ''latest'']
   \<and> fst (resolve_digests (sample_env open_registry) ''myrepo/app''
          [JStr ''v1'', JStr ''v2'', JStr ''latest'']
          (snd (list_tags (sample_env open_registry) ''myrepo/app''
             (Registry ''https://index.docker.io'' None))))
       = Inr [Some ''sha256:aaaa'', Some ''sha256:bbbb'', Some ''sha256:aaaa'']
   \<and> fst (list_images (sample_env open_registry) ''myrepo/app''
          (Registry ''https://index.docker.io'' None))
       = Inr [(Some ''sha256:aaaa'', [JStr ''v1'', JStr ''latest'']),
              (Some ''sha256:bbbb'', [JStr ''v2''])]
   \<and> first_occurrences [Some ''sha256:aaaa'', Some ''sha256:bbbb'', Some ''sha256:aaaa'']
       = [Some ''sha256:aaaa'', Some ''sha256:bbbb'']"
proof -
  let ?E = "sample_env open_registry"
  let ?s0 = "Registry ''https://index.docker.io'' None"
  let ?items = "[JStr ''v1'', JStr ''v2'', JStr ''latest'']"
  let ?digests = "[Some ''sha256:aaaa'', Some ''sha256:bbbb'', Some ''sha256:aaaa'']"
  let ?images = "[(Some ''sha256:aaaa'', [JStr ''v1'', JStr ''latest'']),
                  (Some ''sha256:bbbb'', [JStr ''v2''])]"
  let ?s1 = "snd (list_tags ?E ''myrepo/app'' ?s0)"
  let ?s2 = "snd (resolve_digests ?E ''myrepo/app'' ?items ?s1)"
  have t1: "fst (list_tags ?E ''myrepo/app'' ?s0) = Inr (JArr ?items)"
    by (simp add: run_defs sample_defs)
  then have t: "list_tags ?E ''myrepo/app'' ?s0 = (Inr (JArr ?items), ?s1)"
    by (simp add: prod_eq_iff)
  have i: "py_iter (JArr ?items) = Inr ?items"
    by simp
  have r1: "fst (resolve_digests ?E ''myrepo/app'' ?items ?s1) = Inr ?digests"
    by (simp add: run_defs sample_defs)
  then have r: "resolve_digests ?E ''myrepo/app'' ?items ?s1 = (Inr ?digests, ?s2)"
    by (simp add: prod_eq_iff)
  have l1: "fst (list_images ?E ''myrepo/app'' ?s0) = Inr ?images"
    by (simp add: run_defs sample_defs)
  from list_images_groups_in_order [OF t i r] obtain images where
    "list_images ?E ''myrepo/app'' ?s0 = (Inr images, ?s2)"
    and k: "map fst images = first_occurrences ?digests"
    by blast
  with l1 have "images = ?images"
    by simp
  with k have f: "first_occurrences ?digests = [Some ''sha256:aaaa'', Some ''sha256:bbbb'']"
    by simp
  from t1 i r1 l1 f show ?thesis
    by blast
qed

subsection \<open>The driver\<close>

text \<open>
  C8. The run is the \<^verbatim>\<open>try\<close> statement for the parsed name, with \<^verbatim>\<open>library/\<close> put in
  front when the parsed name has no slash and unchanged when it has one; and every
  request of the run is made for that name, \<open>arg_url @ /v2/ @ name @ / ...\<close>, the
  requests to a token service apart.
\<close>

theorem repository_name_in_requests:
  assumes "split_reference (arg_name a) = (n, t)"
    and "name = (if CHR ''/'' \<in> set n then n else ''library/'' @ n)"
  shows "main env a = driver env name (if arg_all a then None else Some t)
                        (Registry (arg_url a) (arg_token a))
         \<and> (\<forall>rq\<in>set (sent (snd (main env a))).
               (\<exists>realm service scope. rq = token_request env realm service scope)
               \<or> (\<exists>rest. req_url rq = arg_url a @ ''/v2/'' @ name @ ''/'' @ rest))"
proof -
  let ?s0 = "Registry (arg_url a) (arg_token a)"
  let ?tag = "if arg_all a then None else Some t"
  have m: "main env a = driver env name ?tag ?s0"
    using assms by (simp add: main_def parse_reference_def)
  obtain out s' where d: "driver env name ?tag ?s0 = (out, s')"
    by (cases "driver env name ?tag ?s0")
  from driver_frame [OF d]
  have "list_all (names_repository env (arg_url a) name) (sent s')"
    by (auto simp: requests_added_def Registry_def)
  then have "\<forall>rq\<in>set (sent s').
      (\<exists>realm service scope. rq = token_request env realm service scope)
      \<or> (\<exists>rest. req_url rq = arg_url a @ ''/v2/'' @ name @ ''/'' @ rest)"
    unfolding list_all_iff names_repository_def .
  with m d show ?thesis
    by simp
qed

text \<open>C8 on the reference \<^verbatim>\<open>nginx\<close>: the one request of the run names
  \<^verbatim>\<open>library/nginx\<close>.\<close>

theorem repository_name_in_requests_witness:
  "split_reference (arg_name (cli ''nginx'' False)) = (''nginx'', ''latest'')
   \<and> sent (snd (main (sample_env open_registry) (cli ''nginx'' False))) =
       [\<lparr>req_url = ''https://index.docker.io/v2/library/nginx/manifests/latest'',
         req_method = ''HEAD'',
         req_headers = [(''Accept'', ''application/vnd.docker.distribution.manifest.list.v2+json'')]\<rparr>]
   \<and> ((\<exists>realm service scope.
          \<lparr>req_url = ''https://index.docker.io/v2/library/nginx/manifests/latest'',
           req_method = ''HEAD'',
           req_headers = [(''Accept'', ''application/vnd.docker.distribution.manifest.list.v2+json'')]\<rparr>
          = token_request (sample_env open_registry) realm service scope)
        \<or> (\<exists>rest. ''https://index.docker.io/v2/library/nginx/manifests/latest''
              = ''https://index.docker.io'' @ ''/v2/'' @ ''library/nginx'' @ ''/'' @ rest))"
proof -
  let ?E = "sample_env open_registry"
  let ?a = "cli ''nginx'' False"
  have h: "split_reference (arg_name ?a) = (''nginx'', ''latest'')"
    by (simp add: cli_def split_reference_def)
  have n: "''library/nginx'' = (if CHR ''/'' \<in> set ''nginx'' then ''nginx'' else ''library/'' @ ''nginx'')"
    by simp
  have s: "sent (snd (main ?E ?a)) =
       [\<lparr>req_url = ''https://index.docker.io/v2/library/nginx/manifests/latest'',
         req_method = ''HEAD'',
         req_headers = [(''Accept'', ''application/vnd.docker.distribution.manifest.list.v2+json'')]\<rparr>]"
    by (simp add: run_defs sample_defs)
  from repository_name_in_requests [OF h n, of ?E, THEN conjunct2] s h
  show ?thesis
    by (simp add: cli_def)
qed

text \<open>
  Against C2 as stated: the run for \<^verbatim>\<open>myrepo/app@sha256:aaaa\<close> makes five requests,
  and the first of them, before the tag list is fetched, is the \<^verbatim>\<open>HEAD\<close> request that
  resolves the manifest digest of the reference \<^verbatim>\<open>sha256:aaaa\<close>.
\<close>

theorem digest_reference_request_log:
  "sent (snd (main (sample_env open_registry) (cli ''myrepo/app@sha256:aaaa'' False))) =
     [\<lparr>req_url = ''https://index.docker.io/v2/myrepo/app/manifests/sha256:aaaa'',
       req_method = ''HEAD'',
       req_headers = [(''Accept'', ''application/vnd.docker.distribution.manifest.list.v2+json'')]\<rparr>,
      \<lparr>req_url = ''https://index.docker.io/v2/myrepo/app/tags/list'',
       req_method = ''GET'', req_headers = []\<rparr>,
      \<lparr>req_url = ''https://index.docker.io/v2/myrepo/app/manifests/v1'',
       req_method = ''HEAD'',
       req_headers = [(''Accept'', ''application/vnd.docker.distribution.manifest.list.v2+json'')]\<rparr>,
      \<lparr>req_url = ''https://index.docker.io/v2/myrepo/app/manifests/v2'',
       req_method = ''HEAD'',
       req_headers = [(''Accept'', ''application/vnd.docker.distribution.manifest.list.v2+json'')]\<rparr>,
      \<lparr>req_url = ''https://index.docker.io/v2/myrepo/app/manifests/latest'',
       req_method = ''HEAD'',
       req_headers = [(''Accept'', ''application/vnd.docker.distribution.manifest.list.v2+json'')]\<rparr>]"
  by (simp add: run_defs sample_defs)

text \<open>
  C2, amended. For a reference with an \<open>@\<close> digest and without \<^verbatim>\<open>--all\<close>, the run
  begins with the \<^verbatim>\<open>HEAD\<close> request for the manifest of that digest: when \<^verbatim>\<open>Request\<close>
  accepts its URL, it is the first request handed to \<^verbatim>\<open>urlopen\<close>, before
  \<^verbatim>\<open>list_images\<close>; when \<^verbatim>\<open>Request\<close> rejects the URL, the run ends there with an uncaught
  \<^verbatim>\<open>ValueError\<close> and no request. When this request and \<^verbatim>\<open>list_images\<close> return, the line
  printed is the group of the digest that the request returned.
\<close>

theorem digest_reference_is_resolved:
  assumes "CHR ''@'' \<notin> set n" and "d \<noteq> []"
    and "arg_name a = n @ CHR ''@'' # d" and "\<not> arg_all a"
    and "name = (if CHR ''/'' \<notin> set n then ''library/'' @ n else n)"
    and "u = arg_url a @ ''/v2/'' @ name @ ''/manifests/'' @ d"
  shows "(\<not> request_raises env u \<longrightarrow>
            (\<exists>rq more. sent (snd (main env a)) = rq # more \<and> req_method rq = ''HEAD''
               \<and> req_url rq = u))
         \<and> (request_raises env u \<longrightarrow>
               main env a = (Uncaught ValueError, Registry (arg_url a) (arg_token a)))
         \<and> (\<forall>digest s1 images s2 tags line.
               get_manifests_list_digest env name (JStr d) (Registry (arg_url a) (arg_token a))
                 = (Inr digest, s1)
               \<and> list_images env name s1 = (Inr images, s2)
               \<and> map_of images digest = Some tags \<and> str_join '' '' tags = Inr line
               \<longrightarrow> main env a = (Finished, print line s2))"
proof -
  let ?s0 = "Registry (arg_url a) (arg_token a)"
  have m: "main env a = driver env name (Some d) ?s0"
    using assms by (simp add: main_def parse_reference_digest)
  obtain hs where hs: "authorize (token ?s0)
      [(''Accept'', ''application/vnd.docker.distribution.manifest.list.v2+json'')] = Inr hs"
    by (simp add: authorize_Registry)
  have u: "u = url ?s0 @ ''/v2/'' @ name @ ''/manifests/'' @ d"
    by (simp add: assms(6) Registry_def)
  have first: "\<exists>rq more. sent (snd (main env a)) = rq # more \<and> req_method rq = ''HEAD''
      \<and> req_url rq = u"
    if "\<not> request_raises env u"
  proof -
    from that u have "\<not> request_raises env (url ?s0 @ ''/v2/'' @ name @ ''/manifests/'' @ d)"
      by simp
    from try_block_first_request [OF hs this] obtain more where
      "sent (snd (try_block env name (Some d) ?s0))
        = sent ?s0 @ \<lparr>req_url = url ?s0 @ ''/v2/'' @ name @ ''/manifests/'' @ d,
                       req_method = ''HEAD'', req_headers = hs\<rparr> # more"
      by blast
    then have "sent (snd (main env a))
        = \<lparr>req_url = u, req_method = ''HEAD'', req_headers = hs\<rparr> # more"
      by (simp add: m driver_sent u) (simp add: Registry_def)
    then show ?thesis
      by simp
  qed
  have rejected: "main env a = (Uncaught ValueError, ?s0)" if "request_raises env u"
  proof -
    from that u have "request_raises env (url ?s0 @ ''/v2/'' @ name @ ''/manifests/'' @ d)"
      by simp
    from try_block_rejected [OF hs this] show ?thesis
      by (simp add: m driver_def)
  qed
  have run: "main env a = (Finished, print line s2)"
    if "get_manifests_list_digest env name (JStr d) ?s0 = (Inr digest, s1)"
      and "list_images env name s1 = (Inr images, s2)"
      and "map_of images digest = Some tags" and "str_join '' '' tags = Inr line"
    for digest s1 images s2 tags line
    using that by (simp add: m driver_def try_block_def)
  from first rejected run show ?thesis
    by blast
qed

text \<open>C2, amended, on \<^verbatim>\<open>myrepo/app@sha256:aaaa\<close>: the first request and the line
  \<^verbatim>\<open>v1 latest\<close>; and with \<^verbatim>\<open>--url index.docker.io\<close>, a URL without a scheme: no request
  and an uncaught \<^verbatim>\<open>ValueError\<close>.\<close>

theorem digest_reference_is_resolved_witness:
  "CHR ''@'' \<notin> set ''myrepo/app'' \<and> ''sha256:aaaa'' \<noteq> []
   \<and> arg_name (cli ''myrepo/app@sha256:aaaa'' False) = ''myrepo/app'' @ CHR ''@'' # ''sha256:aaaa''
   \<and> \<not> arg_all (cli ''myrepo/app@sha256:aaaa'' False)
   \<and> \<not> request_raises (sample_env open_registry)
         ''https://index.docker.io/v2/myrepo/app/manifests/sha256:aaaa''
   \<and> req_url (hd (sent (snd (main (sample_env open_registry) (cli ''myrepo/app@sha256:aaaa'' False)))))
       = ''https://index.docker.io/v2/myrepo/app/manifests/sha256:aaaa''
   \<and> main (sample_env open_registry) (cli ''myrepo/app@sha256:aaaa'' False)
       = (Finished, print ''v1 latest''
            (snd (list_images (sample_env open_registry) ''myrepo/app''
               (snd (get_manifests_list_digest (sample_env open_registry) ''myrepo/app''
                  (JStr ''sha256:aaaa'') (Registry ''https://index.docker.io'' None))))))
   \<and> request_raises (sample_env open_registry)
         ''index.docker.io/v2/myrepo/app/manifests/sha256:aaaa''
   \<and> main (sample_env open_registry) (cli_no_scheme ''myrepo/app@sha256:aaaa'' False)
       = (Uncaught ValueError, Registry ''index.docker.io'' None)"
proof -
  let ?E = "sample_env open_registry"
  let ?a = "cli ''myrepo/app@sha256:aaaa'' False"
  let ?b = "cli_no_scheme ''myrepo/app@sha256:aaaa'' False"
  let ?s0 = "Registry ''https://index.docker.io'' None"
  let ?s1 = "snd (get_manifests_list_digest ?E ''myrepo/app'' (JStr ''sha256:aaaa'') ?s0)"
  let ?s2 = "snd (list_images ?E ''myrepo/app'' ?s1)"
  let ?u = "''https://index.docker.io/v2/myrepo/app/manifests/sha256:aaaa''"
  let ?v = "''index.docker.io/v2/myrepo/app/manifests/sha256:aaaa''"
  have h: "CHR ''@'' \<notin> set ''myrepo/app''" "''sha256:aaaa'' \<noteq> []"
    "arg_name ?a = ''myrepo/app'' @ CHR ''@'' # ''sha256:aaaa''" "\<not> arg_all ?a"
    "''myrepo/app'' = (if CHR ''/'' \<notin> set ''myrepo/app'' then ''library/'' @ ''myrepo/app''
        else ''myrepo/app'')"
    by (simp_all add: cli_def)
  have hu: "?u = arg_url ?a @ ''/v2/'' @ ''myrepo/app'' @ ''/manifests/'' @ ''sha256:aaaa''"
    by (simp add: cli_def)
  have k: "CHR ''@'' \<notin> set ''myrepo/app''" "''sha256:aaaa'' \<noteq> []"
    "arg_name ?b = ''myrepo/app'' @ CHR ''@'' # ''sha256:aaaa''" "\<not> arg_all ?b"
    "''myrepo/app'' = (if CHR ''/'' \<notin> set ''myrepo/app'' then ''library/'' @ ''myrepo/app''
        else ''myrepo/app'')"
    by (simp_all add: cli_no_scheme_def)
  have kv: "?v = arg_url ?b @ ''/v2/'' @ ''myrepo/app'' @ ''/manifests/'' @ ''sha256:aaaa''"
    by (simp add: cli_no_scheme_def)
  have ok: "\<not> request_raises ?E ?u"
    by (simp add: sample_defs is_space_def)
  have bad: "request_raises ?E ?v"
    by (simp add: sample_defs is_space_def)
  have g: "get_manifests_list_digest ?E ''myrepo/app'' (JStr ''sha256:aaaa'')
      (Registry (arg_url ?a) (arg_token ?a)) = (Inr (Some ''sha256:aaaa''), ?s1)"
    by (simp add: run_defs sample_defs)
  have l: "list_images ?E ''myrepo/app'' ?s1 =
      (Inr [(Some ''sha256:aaaa'', [JStr ''v1'', JStr ''latest'']), (Some ''sha256:bbbb'', [JStr ''v2''])], ?s2)"
    by (simp add: run_defs sample_defs)
  have mo: "map_of [(Some ''sha256:aaaa'', [JStr ''v1'', JStr ''latest'']),
      (Some ''sha256:bbbb'', [JStr ''v2''])] (Some ''sha256:aaaa'') = Some [JStr ''v1'', JStr ''latest'']"
    by simp
  have sj: "str_join '' '' [JStr ''v1'', JStr ''latest''] = Inr ''v1 latest''"
    by simp
  note t = digest_reference_is_resolved [OF h hu, of ?E]
  from t [THEN conjunct1, rule_format, OF ok]
  have first: "req_url (hd (sent (snd (main ?E ?a)))) = ?u"
    by auto
  from t [THEN conjunct2, THEN conjunct2, rule_format,
      OF conjI [OF g conjI [OF l conjI [OF mo sj]]]]
  have run: "main ?E ?a = (Finished, print ''v1 latest'' ?s2)" .
  from digest_reference_is_resolved [OF k kv, of ?E, THEN conjunct2, THEN conjunct1,
      rule_format, OF bad]
  have rejected: "main ?E ?b = (Uncaught ValueError, Registry ''index.docker.io'' None)"
    by (simp add: cli_no_scheme_def)
  from h(1-4) ok first run bad rejected show ?thesis
    by blast
qed

text \<open>
  C10. Without \<^verbatim>\<open>--all\<close>, when the digest resolved for the reference is not a key of
  the dict that \<^verbatim>\<open>list_images\<close> returns, the run ends with an uncaught \<^verbatim>\<open>KeyError\<close>
  for that digest; nothing has been printed, neither a tag line nor the output of the
  handler.
\<close>

theorem missing_digest_key_error:
  assumes "\<not> arg_all a"
    and "parse_reference (arg_name a) (arg_all a) = (name, Some t)"
    and "get_manifests_list_digest env name (JStr t) (Registry (arg_url a) (arg_token a))
           = (Inr digest, s1)"
    and "list_images env name s1 = (Inr images, s2)"
    and "digest \<notin> fst ` set images"
  shows "main env a = (Uncaught (KeyError digest), s2) \<and> printed s2 = []
         \<and> exit_status (fst (main env a)) = 1"
proof -
  from assms(5) have "map_of images digest = None"
    by (simp add: map_of_eq_None_iff)
  with assms have "main env a = (Uncaught (KeyError digest), s2)"
    by (simp add: main_def driver_def try_block_def)
  moreover from get_manifests_list_digest_frame [OF assms(3)] list_images_frame [OF assms(4)]
  have "printed s2 = []"
    by (simp add: Registry_def)
  ultimately show ?thesis
    by simp
qed

text \<open>C10 on \<^verbatim>\<open>myrepo/app@sha256:abcd\<close>, a manifest that no tag points to.\<close>

theorem missing_digest_key_error_witness:
  "\<not> arg_all (cli ''myrepo/app@sha256:abcd'' False)
   \<and> parse_reference (arg_name (cli ''myrepo/app@sha256:abcd'' False))
        (arg_all (cli ''myrepo/app@sha256:abcd'' False)) = (''myrepo/app'', Some ''sha256:abcd'')
   \<and> fst (get_manifests_list_digest (sample_env open_registry) ''myrepo/app'' (JStr ''sha256:abcd'')
        (Registry ''https://index.docker.io'' None)) = Inr (Some ''sha256:abcd'')
   \<and> fst (list_images (sample_env open_registry) ''myrepo/app''
        (snd (get_manifests_list_digest (sample_env open_registry) ''myrepo/app''
           (JStr ''sha256:abcd'') (Registry ''https://index.docker.io'' None))))
       = Inr [(Some ''sha256:aaaa'', [JStr ''v1'', JStr ''latest'']),
              (Some ''sha256:bbbb'', [JStr ''v2''])]
   \<and> fst (main (sample_env open_registry) (cli ''myrepo/app@sha256:abcd'' False))
       = Uncaught (KeyError (Some ''sha256:abcd''))
   \<and> printed (snd (main (sample_env open_registry) (cli ''myrepo/app@sha256:abcd'' False))) = []"
proof -
  let ?E = "sample_env open_registry"
  let ?a = "cli ''myrepo/app@sha256:abcd'' False"
  let ?s0 = "Registry ''https://index.docker.io'' None"
  let ?s1 = "snd (get_manifests_list_digest ?E ''myrepo/app'' (JStr ''sha256:abcd'') ?s0)"
  let ?s2 = "snd (list_images ?E ''myrepo/app'' ?s1)"
  let ?images = "[(Some ''sha256:aaaa'', [JStr ''v1'', JStr ''latest'']),
                  (Some ''sha256:bbbb'', [JStr ''v2''])]"
  have a: "\<not> arg_all ?a"
    by (simp add: cli_def)
  have p: "parse_reference (arg_name ?a) (arg_all ?a) = (''myrepo/app'', Some ''sha256:abcd'')"
    by (simp add: cli_def parse_reference_def split_reference_def)
  have g1: "fst (get_manifests_list_digest ?E ''myrepo/app'' (JStr ''sha256:abcd'') ?s0)
      = Inr (Some ''sha256:abcd'')"
    by (simp add: run_defs sample_defs)
  then have g: "get_manifests_list_digest ?E ''myrepo/app'' (JStr ''sha256:abcd'')
      (Registry (arg_url ?a) (arg_token ?a)) = (Inr (Some ''sha256:abcd''), ?s1)"
    by (simp add: cli_def prod_eq_iff)
  have l1: "fst (list_images ?E ''myrepo/app'' ?s1) = Inr ?images"
    by (simp add: run_defs sample_defs)
  then have l: "list_images ?E ''myrepo/app'' ?s1 = (Inr ?images, ?s2)"
    by (simp add: prod_eq_iff)
  have k: "Some ''sha256:abcd'' \<notin> fst ` set ?images"
    by simp
  note r = missing_digest_key_error [OF a p g l k]
  from r have "fst (main ?E ?a) = Uncaught (KeyError (Some ''sha256:abcd''))"
    by simp
  moreover from r have "printed (snd (main ?E ?a)) = []"
    by simp
  ultimately show ?thesis
    using a p g1 l1 by simp
qed

text \<open>The handler of the driver: its lines, its first line and its exit status.\<close>

lemma print_errors_lines:
  "map (error_lines env) errs = map Some ls
   \<Longrightarrow> print_errors env errs s = (Inr (), s\<lparr>printed := printed s @ concat ls\<rparr>)"
proof (induction errs arbitrary: ls s)
  case Nil
  then show ?case by simp
next
  case (Cons err errs)
  from Cons.prems obtain l ls' where ls: "ls = l # ls'"
    and e: "error_lines env err = Some l" and r: "map (error_lines env) errs = map Some ls'"
    by (cases ls) auto
  from e obtain c m d where f: "getitem err ''code'' = Inr c" "getitem err ''message'' = Inr m"
    "getitem err ''detail'' = Inr d"
    and l: "l = [py_str env c @ '': '' @ py_str env m, ''details: '' @ py_repr env d]"
    by (auto simp: error_lines_def split: sum.splits)
  show ?case
    by (simp add: f l ls Cons.IH [OF r] print_def)
qed

lemma print_errors_printed:
  "print_errors env errs s = (res, s') \<Longrightarrow> \<exists>more. printed s' = printed s @ more"
  by (induction errs arbitrary: s)
    (fastforce simp: Let_def print_def split: sum.splits)+

lemma except_HTTPError_exit:
  "exit_status (fst (except_HTTPError env c m fp s)) = 1"
  by (auto simp: except_HTTPError_def Let_def split: option.splits sum.splits prod.splits)

lemma except_HTTPError_first_line:
  "\<exists>more. printed (snd (except_HTTPError env c m fp s)) = printed s @ str_HTTPError c m # more"
  by (auto simp: except_HTTPError_def Let_def print_def
      split: option.splits sum.splits prod.splits dest!: print_errors_printed)

text \<open>
  Against C5 as stated: the run of \<^verbatim>\<open>--all myrepo/empty\<close> meets no HTTP error (the
  registry answers 200 with \<^verbatim>\<open>"tags": null\<close>); the \<^verbatim>\<open>try\<close> statement raises
  \<^verbatim>\<open>TypeError\<close>, which is caught nowhere, and the exit status is 1, not 0.
\<close>

theorem exit_status_one_without_http_error:
  "fst (try_block (sample_env open_registry) ''myrepo/empty'' None
          (Registry ''https://index.docker.io'' None)) = Inl TypeError
   \<and> fst (main (sample_env open_registry) (cli ''myrepo/empty'' True)) = Uncaught TypeError
   \<and> exit_status (fst (main (sample_env open_registry) (cli ''myrepo/empty'' True))) = 1"
  by (simp add: run_defs sample_defs)

text \<open>
  C5, amended. When an \<^verbatim>\<open>HTTPError\<close> leaves the \<^verbatim>\<open>try\<close> statement, the exit status is
  1 and the output begins with the string form of the exception (nothing was printed
  before it). With an empty body that line is the whole output. With a body that
  decodes to an object whose \<^verbatim>\<open>errors\<close> is an array of entries with the three fields,
  the output is that line and then, for each entry, \<^verbatim>\<open><code>: <message>\<close> and
  \<^verbatim>\<open>details: <detail>\<close>, the detail rendered by \<^verbatim>\<open>repr\<close>. When the \<^verbatim>\<open>try\<close> statement
  raises nothing, the exit status is 0; when it raises any other exception, that
  exception is uncaught and the exit status is 1.
\<close>

theorem http_error_report:
  assumes "parse_reference (arg_name a) (arg_all a) = (name, tag)"
    and "s0 = Registry (arg_url a) (arg_token a)"
  shows "(\<forall>c m fp s1. try_block env name tag s0 = (Inl (HTTPError c m fp), s1) \<longrightarrow>
            exit_status (fst (main env a)) = 1
            \<and> (\<exists>more. printed (snd (main env a)) = str_HTTPError c m # more)
            \<and> (body fp = [] \<longrightarrow> main env a = (SysExit 1, print (str_HTTPError c m) s1))
            \<and> (\<forall>d errs ls.
                  body fp \<noteq> [] \<and> json_loads env (body fp) = Some d
                  \<and> getitem d ''errors'' = Inr (JArr errs)
                  \<and> map (error_lines env) errs = map Some ls
                  \<longrightarrow> fst (main env a) = SysExit 1
                      \<and> printed (snd (main env a)) = str_HTTPError c m # concat ls))
         \<and> (\<forall>s1. try_block env name tag s0 = (Inr (), s1) \<longrightarrow>
               main env a = (Finished, s1) \<and> exit_status (fst (main env a)) = 0)
         \<and> (\<forall>e s1. try_block env name tag s0 = (Inl e, s1)
               \<and> (case e of HTTPError c m fp \<Rightarrow> False | _ \<Rightarrow> True) \<longrightarrow>
               main env a = (Uncaught e, s1) \<and> exit_status (fst (main env a)) = 1)"
proof -
  have m: "main env a = driver env name tag s0"
    using assms by (simp add: main_def)
  have http: "exit_status (fst (main env a)) = 1
      \<and> (\<exists>more. printed (snd (main env a)) = str_HTTPError c m # more)
      \<and> (body fp = [] \<longrightarrow> main env a = (SysExit 1, print (str_HTTPError c m) s1))
      \<and> (\<forall>d errs ls.
            body fp \<noteq> [] \<and> json_loads env (body fp) = Some d
            \<and> getitem d ''errors'' = Inr (JArr errs)
            \<and> map (error_lines env) errs = map Some ls
            \<longrightarrow> fst (main env a) = SysExit 1
                \<and> printed (snd (main env a)) = str_HTTPError c m # concat ls)"
    if t: "try_block env name tag s0 = (Inl (HTTPError c m fp), s1)" for c m fp s1
  proof -
    have d: "main env a = except_HTTPError env c m fp s1"
      using t by (simp add: m driver_def)
    have p: "printed s1 = []"
      using try_block_HTTPError_printed [OF t] by (simp add: assms(2) Registry_def)
    have 1: "exit_status (fst (main env a)) = 1"
      by (simp add: d except_HTTPError_exit)
    have 2: "\<exists>more. printed (snd (main env a)) = str_HTTPError c m # more"
      using except_HTTPError_first_line [of env c m fp s1] by (simp add: d p)
    have 3: "main env a = (SysExit 1, print (str_HTTPError c m) s1)" if "body fp = []"
      using that by (simp add: d except_HTTPError_def)
    have 4: "fst (main env a) = SysExit 1
        \<and> printed (snd (main env a)) = str_HTTPError c m # concat ls"
      if "body fp \<noteq> []" "json_loads env (body fp) = Some d'"
        "getitem d' ''errors'' = Inr (JArr errs)" "map (error_lines env) errs = map Some ls"
      for d' errs ls
      using that
      by (simp add: d except_HTTPError_def Let_def print_errors_lines [OF that(4)] print_def p)
    from 1 2 3 4 show ?thesis
      by blast
  qed
  have ok: "main env a = (Finished, s1) \<and> exit_status (fst (main env a)) = 0"
    if "try_block env name tag s0 = (Inr (), s1)" for s1
    using that by (simp add: m driver_def)
  have other: "main env a = (Uncaught e, s1) \<and> exit_status (fst (main env a)) = 1"
    if "try_block env name tag s0 = (Inl e, s1)"
      "case e of HTTPError c m fp \<Rightarrow> False | _ \<Rightarrow> True" for e s1
    using that by (cases e) (simp_all add: m driver_def)
  from http ok other show ?thesis
    by blast
qed

text \<open>C5, amended, on the unknown repository \<^verbatim>\<open>nginx\<close> with \<^verbatim>\<open>--all\<close> (the three
  lines, status 1) and on \<^verbatim>\<open>myrepo/app\<close> (status 0).\<close>

theorem http_error_report_witness:
  "parse_reference (arg_name (cli ''nginx'' True)) (arg_all (cli ''nginx'' True))
     = (''library/nginx'', None)
   \<and> fst (try_block (sample_env open_registry) ''library/nginx'' None
        (Registry ''https://index.docker.io'' None)) = Inl (HTTPError 404 ''Not Found'' not_found)
   \<and> exit_status (fst (main (sample_env open_registry) (cli ''nginx'' True))) = 1
   \<and> printed (snd (main (sample_env open_registry) (cli ''nginx'' True)))
       = [''HTTP Error 404: Not Found'', ''NAME_UNKNOWN: repository not found'',
          ''details: '' @ sample_repr (JStr ''library/nginx'')]
   \<and> fst (try_block (sample_env open_registry) ''myrepo/app'' (Some ''latest'')
        (Registry ''https://index.docker.io'' None)) = Inr ()
   \<and> exit_status (fst (main (sample_env open_registry) (cli ''myrepo/app'' False))) = 0"
proof -
  let ?E = "sample_env open_registry"
  let ?s0 = "Registry ''https://index.docker.io'' None"
  let ?a = "cli ''nginx'' True"
  let ?b = "cli ''myrepo/app'' False"
  let ?errs = "[JObj [(''code'', JStr ''NAME_UNKNOWN''), (''message'', JStr ''repository not found''),
      (''detail'', JStr ''library/nginx'')]]"
  let ?ls = "[[''NAME_UNKNOWN: repository not found'',
      ''details: '' @ sample_repr (JStr ''library/nginx'')]]"
  have pa: "parse_reference (arg_name ?a) (arg_all ?a) = (''library/nginx'', None)"
    by (simp add: cli_def parse_reference_def split_reference_def)
  have sa: "?s0 = Registry (arg_url ?a) (arg_token ?a)"
    by (simp add: cli_def)
  have ta1: "fst (try_block ?E ''library/nginx'' None ?s0)
      = Inl (HTTPError 404 ''Not Found'' not_found)"
    by (simp add: run_defs sample_defs)
  then have ta: "try_block ?E ''library/nginx'' None ?s0
      = (Inl (HTTPError 404 ''Not Found'' not_found),
         snd (try_block ?E ''library/nginx'' None ?s0))"
    by (simp add: prod_eq_iff)
  have b: "body not_found \<noteq> []" "json_loads ?E (body not_found) = Some (JObj [(''errors'', JArr ?errs)])"
    "getitem (JObj [(''errors'', JArr ?errs)]) ''errors'' = Inr (JArr ?errs)"
    "map (error_lines ?E) ?errs = map Some ?ls"
    by (simp_all add: sample_defs error_lines_def py_str_def)
  note r = http_error_report [OF pa sa, of ?E]
  from r [THEN conjunct1, rule_format, OF ta]
  have 1: "exit_status (fst (main ?E ?a)) = 1"
    and 4: "\<forall>d errs ls. body not_found \<noteq> [] \<and> json_loads ?E (body not_found) = Some d
        \<and> getitem d ''errors'' = Inr (JArr errs) \<and> map (error_lines ?E) errs = map Some ls
        \<longrightarrow> fst (main ?E ?a) = SysExit 1
          \<and> printed (snd (main ?E ?a)) = str_HTTPError 404 ''Not Found'' # concat ls"
    by blast+
  from 4 [rule_format, OF conjI [OF b(1) conjI [OF b(2) conjI [OF b(3) b(4)]]]]
  have 2: "printed (snd (main ?E ?a)) = [''HTTP Error 404: Not Found'',
      ''NAME_UNKNOWN: repository not found'', ''details: '' @ sample_repr (JStr ''library/nginx'')]"
    by (simp add: str_HTTPError_def str_nat.simps)
  have pb: "parse_reference (arg_name ?b) (arg_all ?b) = (''myrepo/app'', Some ''latest'')"
    by (simp add: cli_def parse_reference_def split_reference_def)
  have sb: "?s0 = Registry (arg_url ?b) (arg_token ?b)"
    by (simp add: cli_def)
  have tb1: "fst (try_block ?E ''myrepo/app'' (Some ''latest'') ?s0) = Inr ()"
    by (simp add: run_defs sample_defs)
  then have tb: "try_block ?E ''myrepo/app'' (Some ''latest'') ?s0
      = (Inr (), snd (try_block ?E ''myrepo/app'' (Some ''latest'') ?s0))"
    by (simp add: prod_eq_iff)
  from http_error_report [OF pb sb, of ?E, THEN conjunct2, THEN conjunct1, rule_format, OF tb]
  have 3: "exit_status (fst (main ?E ?b)) = 0"
    by simp
  from pa ta1 1 2 tb1 3 show ?thesis
    by blast
qed

end
